theory Spec2Isabelle
  imports Complex_Main "HOL-Library.AList" "HOL-Library.Multiset"
begin

section \<open>The data the dialogs work on\<close>

text \<open>
  The dialogs of \<^verbatim>\<open>diskAdd.jsx\<close>, \<^verbatim>\<open>bootOrder.jsx\<close> and the storage pool
  deletion dialog are React class components. Their JavaScript objects are records
  here; a property that may be \<^verbatim>\<open>undefined\<close> is an \<open>option\<close>. The only exception the
  handlers raise by themselves is the \<^verbatim>\<open>TypeError\<close> of reading a property of
  \<^verbatim>\<open>undefined\<close>.
\<close>

datatype error = TypeError

record storage_volume =
  volume_name :: string
  volume_path :: string
  volume_format :: "string option"

record storage_pool =
  pool_name :: string
  pool_type :: string
  pool_connectionName :: string
  pool_id :: string
  pool_active :: bool
  pool_capacity :: rat
  pool_volumes :: "storage_volume list option"

record source =
  source_file :: "string option"
  source_volume :: "string option"
  source_pool :: "string option"

record disk =
  disk_device :: string
  disk_bus :: "string option"
  disk_source :: "source option"

text \<open>
  \<open>vm_disks\<close> is the object \<^verbatim>\<open>vm.disks\<close>, keyed by disk target;
  \<^verbatim>\<open>Object.getOwnPropertyNames\<close> and \<^verbatim>\<open>Object.values\<close> list it in this order.
\<close>

record vm_obj =
  vm_name :: string
  vm_id :: string
  vm_connectionName :: string
  vm_state :: string
  vm_persistent :: bool
  vm_disks :: "(string \<times> disk) list"

datatype mode = CREATE_NEW | USE_EXISTING | CUSTOM_PATH

text \<open>The properties React passes to \<^verbatim>\<open>AddDiskModalBody\<close>.\<close>

record props =
  props_vm :: vm_obj
  props_vms :: "vm_obj list"
  props_storagePools :: "storage_pool list"

text \<open>
  \<^verbatim>\<open>this.state\<close> of \<^verbatim>\<open>AddDiskModalBody\<close> once the dialog has loaded: the fields of
  \<^verbatim>\<open>initialState\<close> and the four fields the constructor and \<^verbatim>\<open>dialogErrorSet\<close> add.
  Numbers are rationals. \<open>sizeV\<close> and \<open>fileV\<close> are the fields \<^verbatim>\<open>size\<close> and \<^verbatim>\<open>file\<close>.
\<close>

record state =
  validate :: bool
  dialogLoading :: bool
  dialogError :: "string option"
  dialogErrorDetail :: "string option"
  storagePools :: "storage_pool list"
  vm :: vm_obj
  vms :: "vm_obj list"
  fileV :: string
  device :: string
  storagePoolName :: "string option"
  storagePoolType :: "string option"
  mode :: mode
  volumeName :: "string option"
  existingVolumeName :: "string option"
  sizeV :: rat
  unit :: string
  format :: "string option"
  target :: "string option"
  permanent :: bool
  hotplug :: bool
  addDiskInProgress :: bool
  cacheMode :: string
  busType :: string
  updateDisks :: bool

text \<open>
  \<^verbatim>\<open>getDefaultVolumeFormat\<close> is called with three kinds of argument: a pool of the
  list (\<^verbatim>\<open>existingVolumeNameDelta\<close>), an object holding only the name and type of a
  pool (\<^verbatim>\<open>initialState\<close>), and the name of a pool (\<^verbatim>\<open>onValueChanged\<close>).
\<close>

datatype pool_arg =
    PoolObject storage_pool
  | PoolNameType string string
  | PoolNameOnly string

text \<open>
  The functions of \<^verbatim>\<open>helpers.js\<close>, of \<^verbatim>\<open>cockpit\<close> and of the JavaScript library that
  the components call and that are not part of these sources. Every function below
  takes them as the parameter \<open>H\<close>, and every theorem holds for all of them.
  \<open>exceptionMessage\<close> is the \<^verbatim>\<open>message\<close> of a caught exception.
\<close>

record helpers =
  gettext :: "string \<Rightarrow> string"
  cockpit_format :: "string \<Rightarrow> string list \<Rightarrow> string"
  toFixed :: "rat \<Rightarrow> nat \<Rightarrow> string"
  convertToUnit :: "rat \<Rightarrow> string \<Rightarrow> string \<Rightarrow> rat"
  getDefaultVolumeFormat :: "pool_arg \<Rightarrow> string option"
  getNextAvailableTarget :: "string list \<Rightarrow> string \<Rightarrow> string option"
  getStorageVolumesUsage :: "vm_obj list \<Rightarrow> storage_pool \<Rightarrow> (string \<times> string list) list"
  getStorageVolumeDiskTarget :: "vm_obj \<Rightarrow> storage_pool \<Rightarrow> string option \<Rightarrow> string option"
  domainIsRunning :: "string \<Rightarrow> bool"
  localeCompare :: "string \<Rightarrow> string \<Rightarrow> int"
  exceptionMessage :: "error \<Rightarrow> string"

text \<open>The names of the units \<^verbatim>\<open>units.B\<close>, \<^verbatim>\<open>units.GiB\<close> and \<^verbatim>\<open>'MiB'\<close>.\<close>

definition units_B :: string where
  "units_B = ''B''"

definition units_GiB_name :: string where
  "units_GiB_name = ''GiB''"

definition units_MiB_name :: string where
  "units_MiB_name = ''MiB''"

text \<open>JavaScript truthiness of a string that may be undefined.\<close>

definition truthy :: "string option \<Rightarrow> bool" where
  "truthy v = (case v of None \<Rightarrow> False | Some s \<Rightarrow> s \<noteq> [])"

text \<open>\<^verbatim>\<open>parseFloat\<close> of a number prints it and reads it back: the number itself.\<close>

definition parseFloat :: "rat \<Rightarrow> rat" where
  "parseFloat x = x"

section \<open>The disk dialog: validation\<close>

definition poolTypesNotSupportingVolumeCreation :: "string list" where
  "poolTypesNotSupportingVolumeCreation = [''iscsi'', ''iscsi-direct'', ''gluster'', ''mpath'']"

text \<open>
  \<^verbatim>\<open>validateParams\<close>. The result object \<^verbatim>\<open>validationFailed\<close> is an association list
  from field name to message, in the order the properties are created. In the
  create-new branch the pool is looked up in \<^verbatim>\<open>this.props.storagePools\<close> and its
  \<^verbatim>\<open>capacity\<close> is read without a check: when no pool bears the selected name the read
  raises.
\<close>

definition validateParams :: "helpers \<Rightarrow> props \<Rightarrow> state \<Rightarrow> error + (string \<times> string) list" where
  "validateParams H P st =
    (let v1 = (if mode st \<noteq> CUSTOM_PATH \<and> \<not> truthy (storagePoolName st)
               then AList.update ''storagePool'' (gettext H ''Please choose a storage pool'') []
               else [])
     in if mode st = CREATE_NEW then
          (let v2 = (if \<not> truthy (volumeName st)
                     then AList.update ''volumeName'' (gettext H ''Please enter new volume name'') v1
                     else v1);
               v3 = (case storagePoolType st of
                       None \<Rightarrow> v2
                     | Some t \<Rightarrow>
                         if t \<in> set poolTypesNotSupportingVolumeCreation
                         then AList.update ''storagePool''
                                (cockpit_format H (gettext H ''Pool type $0 does not support volume creation'') [t]) v2
                         else v2)
           in case find (\<lambda>pool. Some (pool_name pool) = storagePoolName st) (props_storagePools P) of
                None \<Rightarrow> Inl TypeError
              | Some pool \<Rightarrow>
                  (let poolCapacity = parseFloat (convertToUnit H (pool_capacity pool) units_B (unit st))
                   in Inr (if sizeV st > poolCapacity
                           then AList.update ''size''
                                  (cockpit_format H
                                     (gettext H ''Storage volume size must not exceed the storage pool's capacity ($0 $1)'')
                                     [toFixed H poolCapacity 2, unit st]) v3
                           else v3)))
        else if mode st = USE_EXISTING then
          Inr (if mode st \<noteq> CUSTOM_PATH \<and> \<not> truthy (existingVolumeName st)
               then AList.update ''existingVolumeName'' (gettext H ''Please choose a volume'') v1
               else v1)
        else Inr v1)"

section \<open>The disk dialog: submission\<close>

text \<open>The argument objects of \<^verbatim>\<open>storageVolumeCreateAndAttach\<close> and \<^verbatim>\<open>domainAttachDisk\<close>.\<close>

record create_args =
  ca_connectionName :: string
  ca_poolName :: "string option"
  ca_volumeName :: "string option"
  ca_size :: rat
  ca_format :: "string option"
  ca_target :: "string option"
  ca_permanent :: bool
  ca_hotplug :: bool
  ca_vmName :: string
  ca_vmId :: string
  ca_cacheMode :: string
  ca_busType :: string

text \<open>
  \<open>aa_shareable\<close> is the value of
  \<^verbatim>\<open>volume && volume.format === "raw" && isVolumeUsed[this.state.existingVolumeName]\<close>:
  the list of the names of the machines using the volume, or \<open>None\<close> for the
  falsy values \<^verbatim>\<open>undefined\<close> and \<^verbatim>\<open>false\<close>.
\<close>

record attach_args =
  aa_connectionName :: string
  aa_type :: string
  aa_file :: string
  aa_device :: string
  aa_poolName :: "string option"
  aa_volumeName :: "string option"
  aa_format :: "string option"
  aa_target :: "string option"
  aa_permanent :: bool
  aa_hotplug :: bool
  aa_vmName :: string
  aa_vmId :: string
  aa_cacheMode :: string
  aa_shareable :: "string list option"
  aa_busType :: string

text \<open>
  The calls into the libvirt wrapper that the disk dialog issues.
  \<open>DomainGet\<close> carries the connection name, name and id of the machine;
  \<open>DomainUpdateDiskAttributes\<close> the connection name, the object path, the
  \<^verbatim>\<open>readonly\<close> and \<^verbatim>\<open>shareable\<close> flags and the target.
\<close>

datatype ext_call =
    StorageVolumeCreateAndAttach create_args
  | DomainAttachDisk attach_args
  | DomainGet string string string
  | DomainUpdateDiskAttributes string string bool bool "string option"

text \<open>What a promise handler does to the outside: a call, or \<^verbatim>\<open>close()\<close>.\<close>

datatype effect = Call ext_call | Close

datatype outcome = Resolved | Rejected string

text \<open>
  The local variables of \<^verbatim>\<open>onAddClicked\<close> that its promise handlers read later:
  \<^verbatim>\<open>vm\<close>, \<^verbatim>\<open>vms\<close>, and \<^verbatim>\<open>storagePool\<close>, \<^verbatim>\<open>volume\<close>, \<^verbatim>\<open>isVolumeUsed\<close>, which are
  assigned together in the use-existing branch and stay \<^verbatim>\<open>undefined\<close> otherwise.
\<close>

record captures =
  cap_vm :: vm_obj
  cap_vms :: "vm_obj list"
  cap_existing :: "(storage_pool \<times> storage_volume option \<times> (string \<times> string list) list) option"

text \<open>
  The result of one run of the click handler: the state once React has applied the
  \<^verbatim>\<open>setState\<close> calls of the handler, the calls it issued, and its local variables.
\<close>

record clicked =
  after :: state
  issued :: "ext_call list"
  captured :: captures

text \<open>\<^verbatim>\<open>isVolumeUsed[name]\<close>; an undefined name reads the property \<^verbatim>\<open>"undefined"\<close>.\<close>

definition usageOf :: "(string \<times> string list) list \<Rightarrow> string option \<Rightarrow> string list option" where
  "usageOf u k = (case k of None \<Rightarrow> map_of u ''undefined'' | Some n \<Rightarrow> map_of u n)"

definition createArgs :: "helpers \<Rightarrow> state \<Rightarrow> create_args" where
  "createArgs H st =
    \<lparr> ca_connectionName = vm_connectionName (vm st),
      ca_poolName = storagePoolName st,
      ca_volumeName = volumeName st,
      ca_size = convertToUnit H (sizeV st) (unit st) units_MiB_name,
      ca_format = format st,
      ca_target = target st,
      ca_permanent = permanent st,
      ca_hotplug = hotplug st,
      ca_vmName = vm_name (vm st),
      ca_vmId = vm_id (vm st),
      ca_cacheMode = cacheMode st,
      ca_busType = busType st \<rparr>"

definition attachArgs ::
  "state \<Rightarrow> (storage_pool \<times> storage_volume option \<times> (string \<times> string list) list) option \<Rightarrow> attach_args" where
  "attachArgs st ex =
    \<lparr> aa_connectionName = vm_connectionName (vm st),
      aa_type = (if mode st = CUSTOM_PATH then ''file'' else ''volume''),
      aa_file = fileV st,
      aa_device = device st,
      aa_poolName = storagePoolName st,
      aa_volumeName = existingVolumeName st,
      aa_format = (if mode st \<noteq> CUSTOM_PATH then format st else Some ''raw''),
      aa_target = target st,
      aa_permanent = permanent st,
      aa_hotplug = hotplug st,
      aa_vmName = vm_name (vm st),
      aa_vmId = vm_id (vm st),
      aa_cacheMode = cacheMode st,
      aa_shareable =
        (case ex of
           None \<Rightarrow> None
         | Some (storagePool, None, isVolumeUsed) \<Rightarrow> None
         | Some (storagePool, Some volume, isVolumeUsed) \<Rightarrow>
             if volume_format volume = Some ''raw''
             then usageOf isVolumeUsed (existingVolumeName st) else None),
      aa_busType = busType st \<rparr>"

text \<open>
  The pool \<^verbatim>\<open>storagePools.find(pool => pool.name === this.state.storagePoolName)\<close>
  of the use-existing branch, and its volume list.
\<close>

definition selectedPool :: "state \<Rightarrow> storage_pool option" where
  "selectedPool st = find (\<lambda>pool. Some (pool_name pool) = storagePoolName st) (storagePools st)"

definition selectedPoolVolumes :: "state \<Rightarrow> storage_volume list option" where
  "selectedPoolVolumes st = (case selectedPool st of None \<Rightarrow> None | Some pool \<Rightarrow> pool_volumes pool)"

text \<open>
  \<^verbatim>\<open>onAddClicked\<close>, up to the point where it returns the promise. A failed validation
  only sets two flags. In create-new mode the busy flag is set and the volume is
  created and attached. Otherwise \<^verbatim>\<open>domainAttachDisk\<close> is called; in use-existing
  mode the pool and the volume are looked up first, in \<^verbatim>\<open>this.state.storagePools\<close>,
  and \<^verbatim>\<open>storagePool.volumes.find\<close> raises when the pool or its volume list is missing.
\<close>

definition onAddClicked :: "helpers \<Rightarrow> props \<Rightarrow> state \<Rightarrow> error + clicked" where
  "onAddClicked H P st =
    (let caps = \<lparr> cap_vm = vm st, cap_vms = vms st, cap_existing = None \<rparr>
     in case validateParams H P st of
          Inl e \<Rightarrow> Inl e
        | Inr validation \<Rightarrow>
            if length (map fst validation) > 0 then
              Inr \<lparr> after = st\<lparr>addDiskInProgress := False, validate := True\<rparr>,
                    issued = [], captured = caps \<rparr>
            else if mode st = CREATE_NEW then
              Inr \<lparr> after = st\<lparr>addDiskInProgress := True, validate := False\<rparr>,
                    issued = [StorageVolumeCreateAndAttach (createArgs H st)],
                    captured = caps \<rparr>
            else if mode st = USE_EXISTING then
              (case selectedPool st of
                 None \<Rightarrow> Inl TypeError
               | Some storagePool \<Rightarrow>
                   (case pool_volumes storagePool of
                      None \<Rightarrow> Inl TypeError
                    | Some volumes \<Rightarrow>
                        (let volume = find (\<lambda>vol. Some (volume_name vol) = existingVolumeName st) volumes;
                             isVolumeUsed = getStorageVolumesUsage H (vms st) storagePool;
                             ex = Some (storagePool, volume, isVolumeUsed)
                         in Inr \<lparr> after = st,
                                  issued = [DomainAttachDisk (attachArgs st ex)],
                                  captured = caps\<lparr>cap_existing := ex\<rparr> \<rparr>)))
            else
              Inr \<lparr> after = st, issued = [DomainAttachDisk (attachArgs st None)], captured = caps \<rparr>)"

text \<open>
  The \<^verbatim>\<open>Add\<close> button of \<^verbatim>\<open>render\<close>: its \<^verbatim>\<open>isDisabled\<close> property, and a click on it.
  A disabled button does not call its handler.
\<close>

definition addButtonDisabled :: "state \<Rightarrow> bool" where
  "addButtonDisabled st =
    (addDiskInProgress st \<or> dialogLoading st \<or> (length (storagePools st) = 0 \<and> mode st \<noteq> CUSTOM_PATH))"

definition clickAdd :: "helpers \<Rightarrow> props \<Rightarrow> state \<Rightarrow> error + clicked" where
  "clickAdd H P st =
    (if addButtonDisabled st
     then Inr \<lparr> after = st, issued = [],
                captured = \<lparr> cap_vm = vm st, cap_vms = vms st, cap_existing = None \<rparr> \<rparr>
     else onAddClicked H P st)"

text \<open>\<^verbatim>\<open>dialogErrorSet\<close>, and the two \<^verbatim>\<open>.catch\<close> handlers of \<^verbatim>\<open>onAddClicked\<close>.\<close>

definition dialogErrorSet :: "string \<Rightarrow> string \<Rightarrow> state \<Rightarrow> state" where
  "dialogErrorSet text detail st = st\<lparr>dialogError := Some text, dialogErrorDetail := Some detail\<rparr>"

definition onCreateRejected :: "helpers \<Rightarrow> string \<Rightarrow> state \<Rightarrow> state" where
  "onCreateRejected H message st =
    dialogErrorSet (gettext H ''Disk failed to be created'') message (st\<lparr>addDiskInProgress := False\<rparr>)"

definition onAttachRejected :: "helpers \<Rightarrow> string \<Rightarrow> state \<Rightarrow> state" where
  "onAttachRejected H message st =
    dialogErrorSet (gettext H ''Disk failed to be attached'') message (st\<lparr>addDiskInProgress := False\<rparr>)"

text \<open>The \<^verbatim>\<open>.then\<close> handler of the create call: close the dialog, reload the machine.\<close>

definition onCreateResolved :: "captures \<Rightarrow> effect list" where
  "onCreateResolved caps =
    [Close, Call (DomainGet (vm_connectionName (cap_vm caps)) (vm_name (cap_vm caps)) (vm_id (cap_vm caps)))]"

text \<open>
  The \<^verbatim>\<open>forEach\<close> of the \<^verbatim>\<open>.then\<close> handler of the attach call: one
  \<^verbatim>\<open>domainUpdateDiskAttributes\<close> per machine that uses the volume. A name that is
  not the name of a machine of \<^verbatim>\<open>vms\<close> ends the loop with a \<^verbatim>\<open>TypeError\<close>; the calls
  issued before it stay issued.
\<close>

fun forEachUsing ::
  "helpers \<Rightarrow> vm_obj list \<Rightarrow> storage_pool \<Rightarrow> string option \<Rightarrow> string list \<Rightarrow> ext_call list \<times> error option" where
  "forEachUsing H vs storagePool evn [] = ([], None)"
| "forEachUsing H vs storagePool evn (vmName # rest) =
    (case find (\<lambda>v. vm_name v = vmName) vs of
       None \<Rightarrow> ([], Some TypeError)
     | Some v \<Rightarrow>
         (let c = DomainUpdateDiskAttributes (vm_connectionName v) (vm_id v) False True
                    (getStorageVolumeDiskTarget H v storagePool evn);
              r = forEachUsing H vs storagePool evn rest
          in (c # fst r, snd r)))"

text \<open>
  The \<^verbatim>\<open>.then\<close> handler of the attach call, run on the state \<open>st\<close> of the moment the
  promise resolves: the effects in the order they are started, and the exception
  that ended the handler, if any. With a used raw volume \<^verbatim>\<open>close()\<close> waits for the
  update calls.
\<close>

definition onAttachResolved :: "helpers \<Rightarrow> captures \<Rightarrow> state \<Rightarrow> effect list \<times> error option" where
  "onAttachResolved H caps st =
    (let reload = Call (DomainGet (vm_connectionName (cap_vm caps)) (vm_name (cap_vm caps)) (vm_id (cap_vm caps)))
     in if mode st \<noteq> CUSTOM_PATH then
          (case cap_existing caps of
             None \<Rightarrow> ([], Some TypeError)
           | Some (storagePool, None, isVolumeUsed) \<Rightarrow> ([], Some TypeError)
           | Some (storagePool, Some volume, isVolumeUsed) \<Rightarrow>
               if volume_format volume = Some ''raw'' then
                 (case usageOf isVolumeUsed (existingVolumeName st) of
                    None \<Rightarrow> ([Close, reload], None)
                  | Some names \<Rightarrow>
                      (let r = forEachUsing H (cap_vms caps) storagePool (existingVolumeName st) names
                       in case snd r of
                            Some e \<Rightarrow> (map Call (fst r), Some e)
                          | None \<Rightarrow> (map Call (fst r) @ [reload, Close], None)))
               else ([Close, reload], None))
        else ([Close, reload], None))"

text \<open>
  The promise chain \<^verbatim>\<open>call.then(...).catch(...)\<close> of one submission, run on the state
  \<open>st\<close>: \<open>o1\<close> is the outcome of the attach or create call, \<open>o2\<close> that of the
  \<^verbatim>\<open>domainGet\<close> the \<^verbatim>\<open>.then\<close> handler returns. The \<^verbatim>\<open>.catch\<close> handler runs when the
  call rejects, when the \<^verbatim>\<open>.then\<close> handler raises and when \<^verbatim>\<open>domainGet\<close> rejects.
\<close>

definition settle :: "helpers \<Rightarrow> ext_call \<Rightarrow> captures \<Rightarrow> outcome \<Rightarrow> outcome \<Rightarrow> state \<Rightarrow> state \<times> effect list" where
  "settle H c caps o1 o2 st =
    (case c of
       StorageVolumeCreateAndAttach a \<Rightarrow>
         (case o1 of
            Rejected m \<Rightarrow> (onCreateRejected H m st, [])
          | Resolved \<Rightarrow>
              (case o2 of
                 Rejected m \<Rightarrow> (onCreateRejected H m st, onCreateResolved caps)
               | Resolved \<Rightarrow> (st, onCreateResolved caps)))
     | DomainAttachDisk a \<Rightarrow>
         (case o1 of
            Rejected m \<Rightarrow> (onAttachRejected H m st, [])
          | Resolved \<Rightarrow>
              (let r = onAttachResolved H caps st
               in case snd r of
                    Some e \<Rightarrow> (onAttachRejected H (exceptionMessage H e) st, fst r)
                  | None \<Rightarrow>
                      (case o2 of
                         Rejected m \<Rightarrow> (onAttachRejected H m st, fst r)
                       | Resolved \<Rightarrow> (st, fst r))))
     | DomainGet x y z \<Rightarrow> (st, [])
     | DomainUpdateDiskAttributes x y r s t \<Rightarrow> (st, []))"

text \<open>
  One whole submission with nothing in between: the click, then the promise chain
  of the call it issued. The result is the final state and every call into the
  libvirt wrapper that was issued, in order.
\<close>

definition callsOf :: "effect list \<Rightarrow> ext_call list" where
  "callsOf es = concat (map (\<lambda>e. case e of Call c \<Rightarrow> [c] | Close \<Rightarrow> []) es)"

definition submit :: "helpers \<Rightarrow> props \<Rightarrow> state \<Rightarrow> outcome \<Rightarrow> outcome \<Rightarrow> error + (state \<times> ext_call list)" where
  "submit H P st o1 o2 =
    (case onAddClicked H P st of
       Inl e \<Rightarrow> Inl e
     | Inr r \<Rightarrow>
         (case issued r of
            [] \<Rightarrow> Inr (after r, [])
          | c # cs \<Rightarrow>
              (let s = settle H c (captured r) o1 o2 (after r)
               in Inr (fst s, c # cs @ callsOf (snd s)))))"

definition isAttachOrCreate :: "ext_call \<Rightarrow> bool" where
  "isAttachOrCreate c =
    (case c of
       StorageVolumeCreateAndAttach a \<Rightarrow> True
     | DomainAttachDisk a \<Rightarrow> True
     | DomainGet x y z \<Rightarrow> False
     | DomainUpdateDiskAttributes x y r s t \<Rightarrow> False)"

section \<open>The disk dialog: changes of the form\<close>

text \<open>
  \<^verbatim>\<open>Array.prototype.sort\<close> with a comparison function is a stable sort; for a
  comparison that orders the elements consistently its result is that of this
  insertion sort.
\<close>

fun insertSorted :: "('a \<Rightarrow> 'a \<Rightarrow> int) \<Rightarrow> 'a \<Rightarrow> 'a list \<Rightarrow> 'a list" where
  "insertSorted cmp x [] = [x]"
| "insertSorted cmp x (y # ys) = (if cmp x y \<le> 0 then x # y # ys else y # insertSorted cmp x ys)"

definition sortBy :: "('a \<Rightarrow> 'a \<Rightarrow> int) \<Rightarrow> 'a list \<Rightarrow> 'a list" where
  "sortBy cmp xs = foldr (insertSorted cmp) xs []"

text \<open>
  The value of \<^verbatim>\<open>disk.source && (disk.source.file || disk.source.volume)\<close>, and the
  list \<^verbatim>\<open>usedDiskPaths\<close> of the truthy ones among the disks of the machine.
\<close>

definition diskPath :: "disk \<Rightarrow> string option" where
  "diskPath d =
    (case disk_source d of
       None \<Rightarrow> None
     | Some s \<Rightarrow> if truthy (source_file s) then source_file s else source_volume s)"

definition usedDiskPaths :: "(string \<times> disk) list \<Rightarrow> string list" where
  "usedDiskPaths disks =
    List.map_filter (\<lambda>td. if truthy (diskPath (snd td)) then diskPath (snd td) else None) disks"

text \<open>
  \<^verbatim>\<open>getFilteredVolumes\<close>: the volumes of the pool whose path and name are not used by
  a disk of the machine (\<^verbatim>\<open>filteredVolumes\<close>, here \<open>unusedVolumes\<close>), sorted by name.
  Its first argument is the result of an \<^verbatim>\<open>Array.find\<close>; reading \<^verbatim>\<open>volumes\<close> of
  \<^verbatim>\<open>undefined\<close>, or filtering an undefined volume list, raises.
\<close>

definition unusedVolumes :: "storage_volume list \<Rightarrow> (string \<times> disk) list \<Rightarrow> storage_volume list" where
  "unusedVolumes volumes disks =
    filter (\<lambda>volume. volume_path volume \<notin> set (usedDiskPaths disks)
                     \<and> volume_name volume \<notin> set (usedDiskPaths disks)) volumes"

definition getFilteredVolumes ::
  "helpers \<Rightarrow> storage_pool option \<Rightarrow> (string \<times> disk) list \<Rightarrow> error + storage_volume list" where
  "getFilteredVolumes H vmStoragePool disks =
    (case vmStoragePool of
       None \<Rightarrow> Inl TypeError
     | Some pool \<Rightarrow>
         (case pool_volumes pool of
            None \<Rightarrow> Inl TypeError
          | Some volumes \<Rightarrow>
              Inr (sortBy (\<lambda>a b. localeCompare H (volume_name a) (volume_name b))
                     (unusedVolumes volumes disks))))"

definition getDefaultVolumeName :: "helpers \<Rightarrow> state \<Rightarrow> string \<Rightarrow> error + string option" where
  "getDefaultVolumeName H st poolName =
    (case getFilteredVolumes H (find (\<lambda>pool. pool_name pool = poolName) (storagePools st)) (vm_disks (vm st)) of
       Inl e \<Rightarrow> Inl e
     | Inr filteredVolumes \<Rightarrow>
         Inr (case filteredVolumes of [] \<Rightarrow> None | v # rest \<Rightarrow> Some (volume_name v)))"

text \<open>
  A state delta, the object handed to \<^verbatim>\<open>setState\<close>, is the function that merges it
  into a state. \<^verbatim>\<open>existingVolumeNameDelta\<close> reads \<^verbatim>\<open>this.state\<close> (\<open>st\<close>) for the pools
  and the machine.
\<close>

definition fileBasedPoolTypes :: "string list" where
  "fileBasedPoolTypes = [''dir'', ''fs'', ''netfs'', ''gluster'', ''vstorage'']"

definition existingVolumeNameDelta ::
  "helpers \<Rightarrow> state \<Rightarrow> string option \<Rightarrow> string option \<Rightarrow> error + (state \<Rightarrow> state)" where
  "existingVolumeNameDelta H st value poolName =
    (case find (\<lambda>pool. Some (pool_name pool) = poolName \<and> pool_connectionName pool = vm_connectionName (vm st))
            (storagePools st) of
       None \<Rightarrow> Inr (\<lambda>s. s\<lparr>existingVolumeName := value\<rparr>)
     | Some pool \<Rightarrow>
         if pool_type pool \<in> set fileBasedPoolTypes then
           (case pool_volumes pool of
              None \<Rightarrow> Inl TypeError
            | Some volumes \<Rightarrow>
                (case find (\<lambda>vol. Some (volume_name vol) = value) volumes of
                   None \<Rightarrow>
                     Inr (\<lambda>s. s\<lparr>existingVolumeName := value,
                                 format := getDefaultVolumeFormat H (PoolObject pool)\<rparr>)
                 | Some volume \<Rightarrow>
                     if truthy (volume_format volume)
                     then Inr (\<lambda>s. s\<lparr>existingVolumeName := value, format := volume_format volume\<rparr>)
                     else Inr (\<lambda>s. s\<lparr>existingVolumeName := value,
                                      format := getDefaultVolumeFormat H (PoolObject pool)\<rparr>)))
         else Inr (\<lambda>s. s\<lparr>existingVolumeName := value,
                          format := getDefaultVolumeFormat H (PoolObject pool)\<rparr>))"

text \<open>The getter \<^verbatim>\<open>initialState\<close>: the default pool is the first by name.\<close>

definition defaultPool :: "helpers \<Rightarrow> props \<Rightarrow> (string \<times> string) option" where
  "defaultPool H P =
    (if length (props_storagePools P) > 0
     then (case sortBy (\<lambda>poolA poolB. localeCompare H (fst poolA) (fst poolB))
                  (map (\<lambda>pool. (pool_name pool, pool_type pool)) (props_storagePools P)) of
             [] \<Rightarrow> None
           | p # rest \<Rightarrow> Some p)
     else None)"

definition initialState :: "helpers \<Rightarrow> props \<Rightarrow> state \<Rightarrow> state" where
  "initialState H P s =
    (let defaultBus = ''virtio'';
         existingTargets = map fst (vm_disks (props_vm P));
         availableTarget = getNextAvailableTarget H existingTargets defaultBus
     in s\<lparr> storagePools := props_storagePools P,
            vm := props_vm P,
            vms := props_vms P,
            fileV := [],
            device := ''disk'',
            storagePoolName := map_option fst (defaultPool H P),
            storagePoolType := map_option snd (defaultPool H P),
            mode := CREATE_NEW,
            volumeName := None,
            existingVolumeName := None,
            sizeV := 1,
            unit := units_GiB_name,
            format := (case defaultPool H P of
                         None \<Rightarrow> None
                       | Some p \<Rightarrow> getDefaultVolumeFormat H (PoolNameType (fst p) (snd p))),
            target := availableTarget,
            permanent := (\<not> domainIsRunning H (vm_state (props_vm P))),
            hotplug := domainIsRunning H (vm_state (props_vm P)),
            addDiskInProgress := False,
            cacheMode := ''default'',
            busType := defaultBus,
            updateDisks := False \<rparr>)"

text \<open>The state \<^verbatim>\<open>componentDidMount\<close> sets once the storage pools are fetched.\<close>

definition loadedState :: "helpers \<Rightarrow> props \<Rightarrow> state" where
  "loadedState H P =
    initialState H P
      \<lparr> validate = False, dialogLoading = False, dialogError = None, dialogErrorDetail = None,
        storagePools = [], vm = props_vm P, vms = [], fileV = [], device = [],
        storagePoolName = None, storagePoolType = None, mode = CREATE_NEW, volumeName = None,
        existingVolumeName = None, sizeV = 0, unit = [], format = None, target = None,
        permanent = False, hotplug = False, addDiskInProgress = False, cacheMode = [],
        busType = [], updateDisks = False \<rparr>"

text \<open>
  \<^verbatim>\<open>setState\<close> in an event handler does not change \<^verbatim>\<open>this.state\<close>: React queues the
  update and applies the queue, in order, when the handler has returned. The handlers
  rely on it (see the comments at the functional \<^verbatim>\<open>setState\<close> calls of
  \<^verbatim>\<open>onValueChanged\<close>). A handler is therefore a function from \<^verbatim>\<open>this.state\<close> to the
  list of queued updates; an update given as a function of \<^verbatim>\<open>prevState\<close> can raise.
  A result \<open>Inl\<close> says that the handler, or a queued update, raised.
\<close>

type_synonym updater = "state \<Rightarrow> error + state"

definition setState :: "(state \<Rightarrow> state) \<Rightarrow> updater" where
  "setState delta = (\<lambda>s. Inr (delta s))"

fun flush :: "state \<Rightarrow> updater list \<Rightarrow> error + state" where
  "flush s [] = Inr s"
| "flush s (u # us) = (case u s of Inl e \<Rightarrow> Inl e | Inr s' \<Rightarrow> flush s' us)"

text \<open>
  The key and value of \<^verbatim>\<open>onValueChanged\<close>. The last six are keys of the
  \<^verbatim>\<open>default\<close> branch, which stores the value under the key.
\<close>

datatype change =
    StoragePoolName string
  | ExistingVolumeName "string option"
  | Mode mode
  | BusType string
  | File string
  | Device string
  | VolumeName "string option"
  | Size rat
  | Unit string
  | Format "string option"
  | Permanent bool
  | CacheMode string

definition endsWith :: "string \<Rightarrow> string \<Rightarrow> bool" where
  "endsWith s x = (take (length x) (rev s) = rev x)"

definition onBusTypeChanged :: "helpers \<Rightarrow> props \<Rightarrow> string \<Rightarrow> updater list" where
  "onBusTypeChanged H P value =
    (let existingTargets = map fst (vm_disks (props_vm P));
         availableTarget = getNextAvailableTarget H existingTargets value
     in [setState (\<lambda>s. s\<lparr>busType := value, target := availableTarget\<rparr>)])"

text \<open>
  The \<^verbatim>\<open>for\<close> loop of the \<^verbatim>\<open>device\<close> branch: \<^verbatim>\<open>newBus\<close> is the bus of the first disk
  of the machine that has the same device, and stays \<^verbatim>\<open>undefined\<close> without one.
\<close>

definition sameDeviceBus :: "props \<Rightarrow> string \<Rightarrow> string option" where
  "sameDeviceBus P value =
    (case find (\<lambda>d. disk_device d = value) (map snd (vm_disks (props_vm P))) of
       None \<Rightarrow> None
     | Some d \<Rightarrow> disk_bus d)"

text \<open>
  The \<^verbatim>\<open>device\<close> branch: a truthy \<^verbatim>\<open>newBus\<close> is taken over; only otherwise does a
  cdrom on the \<^verbatim>\<open>virtio\<close> bus move to \<^verbatim>\<open>scsi\<close>.
\<close>

definition onDeviceChanged :: "helpers \<Rightarrow> props \<Rightarrow> state \<Rightarrow> string \<Rightarrow> updater list" where
  "onDeviceChanged H P st value =
    setState (\<lambda>s. s\<lparr>device := value\<rparr>) #
    (case sameDeviceBus P value of
       Some newBus \<Rightarrow>
         if newBus \<noteq> [] then onBusTypeChanged H P newBus
         else if value = ''cdrom'' \<and> busType st = ''virtio'' then onBusTypeChanged H P ''scsi''
         else []
     | None \<Rightarrow>
         if value = ''cdrom'' \<and> busType st = ''virtio'' then onBusTypeChanged H P ''scsi''
         else [])"

definition onFileChanged :: "helpers \<Rightarrow> props \<Rightarrow> state \<Rightarrow> string \<Rightarrow> updater list" where
  "onFileChanged H P st value =
    (if endsWith value ''.iso'' then onDeviceChanged H P st ''cdrom'' else [])
    @ [setState (\<lambda>s. s\<lparr>fileV := value\<rparr>)]"

definition onExistingVolumeNameChanged :: "helpers \<Rightarrow> state \<Rightarrow> string option \<Rightarrow> updater list" where
  "onExistingVolumeNameChanged H st value =
    [\<lambda>prevState. case existingVolumeNameDelta H st value (storagePoolName prevState) of
                    Inl e \<Rightarrow> Inl e
                  | Inr delta \<Rightarrow> Inr (delta prevState)]"

text \<open>
  The \<^verbatim>\<open>mode\<close> branch. The delta starts from \<^verbatim>\<open>initialState\<close>; for use-existing it
  is extended by \<^verbatim>\<open>existingVolumeNameDelta\<close> of the first free volume of the default
  pool, called with the pool name of \<^verbatim>\<open>prevState\<close>.
\<close>

definition onModeChanged :: "helpers \<Rightarrow> props \<Rightarrow> state \<Rightarrow> mode \<Rightarrow> updater list" where
  "onModeChanged H P st value =
    [\<lambda>prevState.
       (let stateDelta = (\<lambda>s. (initialState H P s)\<lparr>mode := value\<rparr>)
        in if value = USE_EXISTING then
             (case storagePoolName (stateDelta prevState) of
                None \<Rightarrow> Inr (stateDelta prevState)
              | Some poolName \<Rightarrow>
                  if poolName \<noteq> [] then
                    (case getDefaultVolumeName H st poolName of
                       Inl e \<Rightarrow> Inl e
                     | Inr v \<Rightarrow>
                         (case existingVolumeNameDelta H st v (storagePoolName prevState) of
                            Inl e \<Rightarrow> Inl e
                          | Inr delta \<Rightarrow> Inr (delta (stateDelta prevState))))
                  else Inr (stateDelta prevState))
           else Inr (stateDelta prevState))]"

text \<open>
  The \<^verbatim>\<open>storagePoolName\<close> branch. \<^verbatim>\<open>currentPool.type\<close> is read without a check. The
  format is touched only when exactly one of the old and the new pool is of type
  \<^verbatim>\<open>disk\<close>, and then \<^verbatim>\<open>getDefaultVolumeFormat\<close> is given the name of the pool.
\<close>

definition onStoragePoolNameChanged :: "helpers \<Rightarrow> state \<Rightarrow> string \<Rightarrow> error + updater list" where
  "onStoragePoolNameChanged H st value =
    (let currentPool = find (\<lambda>pool. pool_name pool = value \<and> pool_connectionName pool = vm_connectionName (vm st))
                         (storagePools st);
         prevPool = find (\<lambda>pool. Some (pool_name pool) = storagePoolName st
                              \<and> pool_connectionName pool = vm_connectionName (vm st))
                      (storagePools st)
     in case currentPool of
          None \<Rightarrow> Inl TypeError
        | Some cp \<Rightarrow>
            (let u1 = [setState (\<lambda>s. s\<lparr>storagePoolName := Some value, storagePoolType := Some (pool_type cp)\<rparr>)];
                 u2 = (case prevPool of
                         None \<Rightarrow> []
                       | Some pp \<Rightarrow>
                           if (pool_type cp = ''disk'' \<and> pool_type pp \<noteq> ''disk'')
                              \<or> (pool_type cp \<noteq> ''disk'' \<and> pool_type pp = ''disk'')
                           then [setState (\<lambda>s. s\<lparr>format := getDefaultVolumeFormat H (PoolNameOnly value)\<rparr>)]
                           else [])
             in if mode st = USE_EXISTING then
                  (case getDefaultVolumeName H st value of
                     Inl e \<Rightarrow> Inl e
                   | Inr v \<Rightarrow> Inr (u1 @ u2 @ onExistingVolumeNameChanged H st v))
                else Inr (u1 @ u2)))"

definition onValueChanged :: "helpers \<Rightarrow> props \<Rightarrow> state \<Rightarrow> change \<Rightarrow> error + updater list" where
  "onValueChanged H P st c =
    (case c of
       StoragePoolName value \<Rightarrow> onStoragePoolNameChanged H st value
     | ExistingVolumeName value \<Rightarrow> Inr (onExistingVolumeNameChanged H st value)
     | Mode value \<Rightarrow> Inr (onModeChanged H P st value)
     | BusType value \<Rightarrow> Inr (onBusTypeChanged H P value)
     | File value \<Rightarrow> Inr (onFileChanged H P st value)
     | Device value \<Rightarrow> Inr (onDeviceChanged H P st value)
     | VolumeName value \<Rightarrow> Inr [setState (\<lambda>s. s\<lparr>volumeName := value\<rparr>)]
     | Size value \<Rightarrow> Inr [setState (\<lambda>s. s\<lparr>sizeV := value\<rparr>)]
     | Unit value \<Rightarrow> Inr [setState (\<lambda>s. s\<lparr>unit := value\<rparr>)]
     | Format value \<Rightarrow> Inr [setState (\<lambda>s. s\<lparr>format := value\<rparr>)]
     | Permanent value \<Rightarrow> Inr [setState (\<lambda>s. s\<lparr>permanent := value\<rparr>)]
     | CacheMode value \<Rightarrow> Inr [setState (\<lambda>s. s\<lparr>cacheMode := value\<rparr>)])"

text \<open>One change event: the handler, then the queue applied to the state.\<close>

definition changed :: "helpers \<Rightarrow> props \<Rightarrow> state \<Rightarrow> change \<Rightarrow> error + state" where
  "changed H P st c =
    (case onValueChanged H P st c of
       Inl e \<Rightarrow> Inl e
     | Inr us \<Rightarrow> flush st us)"

section \<open>The disk dialog: what render reads\<close>

text \<open>
  \<^verbatim>\<open>onAddClicked\<close> runs when the \<^verbatim>\<open>Add\<close> button is clicked, that is, in a state that
  \<^verbatim>\<open>render\<close> has shown with the button enabled. \<^verbatim>\<open>render\<close> reads the state too, and a
  read that raises leaves no dialog to click in. These are the reads of \<^verbatim>\<open>render\<close>
  and of the components it renders that can raise.

  \<^verbatim>\<open>SelectExistingVolume\<close> looks the selected pool up in the pools it is given and
  passes the result to \<^verbatim>\<open>getFilteredVolumes\<close>.
\<close>

definition renderSelectExistingVolume :: "helpers \<Rightarrow> state \<Rightarrow> error + storage_volume list" where
  "renderSelectExistingVolume H st =
    getFilteredVolumes H (find (\<lambda>pool. Some (pool_name pool) = storagePoolName st) (storagePools st))
      (vm_disks (vm st))"

text \<open>
  \<^verbatim>\<open>ChangeShareable\<close> reads \<^verbatim>\<open>storagePool.volumes.find\<close> of the selected pool, and
  \<^verbatim>\<open>volume.format\<close> when the volume is used by some machine.
\<close>

definition renderChangeShareable :: "helpers \<Rightarrow> state \<Rightarrow> error + unit" where
  "renderChangeShareable H st =
    (case selectedPool st of
       None \<Rightarrow> Inl TypeError
     | Some storagePool \<Rightarrow>
         (let isVolumeUsed = getStorageVolumesUsage H (vms st) storagePool
          in case pool_volumes storagePool of
               None \<Rightarrow> Inl TypeError
             | Some volumes \<Rightarrow>
                 (case usageOf isVolumeUsed (existingVolumeName st) of
                    None \<Rightarrow> Inr ()
                  | Some names \<Rightarrow>
                      if length names = 0 then Inr ()
                      else (case find (\<lambda>vol. Some (volume_name vol) = existingVolumeName st) volumes of
                              None \<Rightarrow> Inl TypeError
                            | Some volume \<Rightarrow> Inr ()))))"

text \<open>
  \<^verbatim>\<open>render\<close>: with \<^verbatim>\<open>validate\<close> set it calls \<^verbatim>\<open>validateParams\<close>; while the dialog is
  loading it shows a spinner; in use-existing mode with at least one pool it
  renders \<^verbatim>\<open>SelectExistingVolume\<close> and \<^verbatim>\<open>ChangeShareable\<close>. The create-new and the
  custom-path part read nothing of the pools that can raise (the pool lookup of
  \<^verbatim>\<open>CreateNewDisk\<close> is guarded). The reads of \<^verbatim>\<open>AdditionalOptions\<close>
  (\<^verbatim>\<open>diskBusTypes[device]\<close>, \<^verbatim>\<open>supportedDiskBusTypes\<close>) are not modelled: where
  \<^verbatim>\<open>render\<close> returns, this one returns too.
\<close>

definition render :: "helpers \<Rightarrow> props \<Rightarrow> state \<Rightarrow> error + unit" where
  "render H P st =
    (case (if validate st then validateParams H P st else Inr []) of
       Inl e \<Rightarrow> Inl e
     | Inr validationFailed \<Rightarrow>
         if dialogLoading st then Inr ()
         else if mode st = USE_EXISTING \<and> length (storagePools st) > 0 then
           (case renderSelectExistingVolume H st of
              Inl e \<Rightarrow> Inl e
            | Inr filteredVolumes \<Rightarrow> renderChangeShareable H st)
         else Inr ())"

section \<open>The boot order dialog\<close>

text \<open>
  A JavaScript array is a list of elements that may be \<^verbatim>\<open>undefined\<close>. Reading
  outside the array gives \<^verbatim>\<open>undefined\<close>; writing at or past the end extends it;
  writing at a negative index sets a property that is no element, so the elements
  stay as they are. \<^verbatim>\<open>indexOf\<close> gives the first index of an element, or \<open>-1\<close>; it
  compares with \<^verbatim>\<open>===\<close>, which for objects is identity, and equality of the
  element type stands for it.
\<close>

definition jsGet :: "'a option list \<Rightarrow> int \<Rightarrow> 'a option" where
  "jsGet xs i = (if 0 \<le> i \<and> i < int (length xs) then xs ! nat i else None)"

definition jsSet :: "'a option list \<Rightarrow> int \<Rightarrow> 'a option \<Rightarrow> 'a option list" where
  "jsSet xs i v =
    (if i < 0 then xs
     else if i < int (length xs) then xs[nat i := v]
     else xs @ replicate (nat i - length xs) None @ [v])"

fun indexOf :: "'a list \<Rightarrow> 'a \<Rightarrow> int" where
  "indexOf [] x = -1"
| "indexOf (y # ys) x =
    (if y = x then 0 else (let r = indexOf ys x in if r < 0 then -1 else r + 1))"

definition moveUp :: "'a option list \<Rightarrow> 'a option \<Rightarrow> 'a option list" where
  "moveUp devs dev =
    (let direction = -1;
         index = indexOf devs dev;
         tmp = jsGet devs (index + direction);
         devices1 = jsSet devs (index + direction) (jsGet devs index);
         devices2 = jsSet devices1 index tmp
     in devices2)"

definition moveDown :: "'a option list \<Rightarrow> 'a option \<Rightarrow> 'a option list" where
  "moveDown devs dev =
    (let direction = 1;
         index = indexOf devs dev;
         tmp = jsGet devs (index + direction);
         devices1 = jsSet devs (index + direction) (jsGet devs index);
         devices2 = jsSet devices1 index tmp
     in devices2)"

text \<open>
  The arrow buttons of a row of \<^verbatim>\<open>render\<close>: \<^verbatim>\<open>upDisabled\<close> and \<^verbatim>\<open>downDisabled\<close> of
  the row at \<open>index\<close>. Reading \<^verbatim>\<open>checked\<close> of an undefined element raises.
\<close>

record boot_device =
  bd_type :: string
  bd_bootOrder :: "nat option"
  bd_checked :: bool

definition upDisabled :: "boot_device option list \<Rightarrow> nat \<Rightarrow> error + bool" where
  "upDisabled devs index =
    (if index = 0 then Inr True
     else case jsGet devs (int index) of
            None \<Rightarrow> Inl TypeError
          | Some dev \<Rightarrow> Inr (\<not> bd_checked dev))"

definition downDisabled :: "boot_device option list \<Rightarrow> nat \<Rightarrow> error + bool" where
  "downDisabled devs index =
    (if index + 1 = length devs then Inr True
     else case jsGet devs (int index + 1) of
            None \<Rightarrow> Inl TypeError
          | Some nextDevice \<Rightarrow> Inr (\<not> bd_checked nextDevice))"

text \<open>
  The state of \<^verbatim>\<open>BootOrderModal\<close>, its \<^verbatim>\<open>save\<close> up to the call it issues, and the
  two handlers of the promise. The state has no field that says a call is pending,
  and the \<^verbatim>\<open>Save\<close> button of \<^verbatim>\<open>render\<close> has no \<^verbatim>\<open>isDisabled\<close> property.
\<close>

record boot_modal =
  devices :: "boot_device option list"
  boot_dialogError :: "string option"
  boot_dialogErrorDetail :: "string option"

datatype boot_call =
    DomainChangeBootOrder string string "boot_device list"
  | BootDomainGet string string

definition save :: "vm_obj \<Rightarrow> boot_modal \<Rightarrow> error + boot_call" where
  "save v st =
    (case those (devices st) of
       None \<Rightarrow> Inl TypeError
     | Some ds \<Rightarrow> Inr (DomainChangeBootOrder (vm_id v) (vm_connectionName v) (filter bd_checked ds)))"

definition saveButtonDisabled :: "boot_modal \<Rightarrow> bool" where
  "saveButtonDisabled st = False"

definition onSaveRejected :: "helpers \<Rightarrow> string \<Rightarrow> boot_modal \<Rightarrow> boot_modal" where
  "onSaveRejected H message st =
    st\<lparr>boot_dialogError := Some (gettext H ''Boot order settings could not be saved''),
       boot_dialogErrorDetail := Some message\<rparr>"

definition onSaveResolved :: "vm_obj \<Rightarrow> boot_call list" where
  "onSaveResolved v = [BootDomainGet (vm_connectionName v) (vm_id v)]"

text \<open>
  The dialog together with the calls that are pending: a click on \<^verbatim>\<open>Save\<close> runs
  \<^verbatim>\<open>save\<close> unless the button is disabled, and the call it issues is pending until
  its promise settles.
\<close>

record boot_run =
  br_modal :: boot_modal
  br_pending :: "boot_call list"

definition clickSave :: "vm_obj \<Rightarrow> boot_run \<Rightarrow> boot_run" where
  "clickSave v r =
    (if saveButtonDisabled (br_modal r) then r
     else case save v (br_modal r) of
            Inl e \<Rightarrow> r
          | Inr c \<Rightarrow> r\<lparr>br_pending := br_pending r @ [c]\<rparr>)"

section \<open>The storage pool deletion dialog\<close>

record pool_delete =
  pd_dialogError :: "string option"
  pd_dialogErrorDetail :: "string option"
  pd_deleteVolumes :: bool

datatype pool_call =
    StorageVolumeDelete string string string
  | StoragePoolDeactivate string string
  | StoragePoolUndefine string string

text \<open>
  \<^verbatim>\<open>storagePoolDeactivateAndUndefine\<close>: the call it issues at once. For an active
  pool the \<^verbatim>\<open>storagePoolUndefine\<close> follows when the deactivation has resolved.
\<close>

definition storagePoolDeactivateAndUndefine :: "storage_pool \<Rightarrow> pool_call" where
  "storagePoolDeactivateAndUndefine storagePool =
    (if pool_active storagePool
     then StoragePoolDeactivate (pool_connectionName storagePool) (pool_id storagePool)
     else StoragePoolUndefine (pool_connectionName storagePool) (pool_id storagePool))"

text \<open>
  \<^verbatim>\<open>delete\<close>: the calls issued by the click itself. With \<^verbatim>\<open>deleteVolumes\<close> all the
  volume deletions are started together (\<^verbatim>\<open>Promise.all\<close> over \<^verbatim>\<open>volumes.map\<close>).
\<close>

definition delete :: "storage_pool \<Rightarrow> pool_delete \<Rightarrow> error + pool_call list" where
  "delete storagePool st =
    (if pd_deleteVolumes st then
       (case pool_volumes storagePool of
          None \<Rightarrow> Inl TypeError
        | Some volumes \<Rightarrow>
            if length volumes > 0
            then Inr (map (\<lambda>volume. StorageVolumeDelete (pool_connectionName storagePool)
                                      (pool_name storagePool) (volume_name volume)) volumes)
            else Inr [storagePoolDeactivateAndUndefine storagePool])
     else Inr [storagePoolDeactivateAndUndefine storagePool])"

fun someDiskOfPool :: "storage_pool \<Rightarrow> disk list \<Rightarrow> error + bool" where
  "someDiskOfPool pool [] = Inr False"
| "someDiskOfPool pool (d # ds) =
    (case disk_source d of
       None \<Rightarrow> Inl TypeError
     | Some s \<Rightarrow> if source_pool s = Some (pool_name pool) then Inr True else someDiskOfPool pool ds)"

fun canDelete :: "storage_pool \<Rightarrow> vm_obj list \<Rightarrow> error + bool" where
  "canDelete pool [] = Inr True"
| "canDelete pool (v # rest) =
    (case someDiskOfPool pool (map snd (vm_disks v)) of
       Inl e \<Rightarrow> Inl e
     | Inr used \<Rightarrow> if used then Inr False else canDelete pool rest)"

definition canDeleteOnlyWithoutVolumes :: "helpers \<Rightarrow> storage_pool \<Rightarrow> vm_obj list \<Rightarrow> error + bool" where
  "canDeleteOnlyWithoutVolumes H pool vs =
    (case canDelete pool vs of
       Inl e \<Rightarrow> Inl e
     | Inr ok \<Rightarrow>
         if ok then Inr (list_ex (\<lambda>kv. length (snd kv) > 0) (getStorageVolumesUsage H vs pool))
         else Inr False)"

text \<open>The \<^verbatim>\<open>isDisabled\<close> property of the \<^verbatim>\<open>Delete\<close> button, and a click on the button.\<close>

definition deleteButtonDisabled :: "helpers \<Rightarrow> storage_pool \<Rightarrow> vm_obj list \<Rightarrow> pool_delete \<Rightarrow> error + bool" where
  "deleteButtonDisabled H pool vs st =
    (case canDeleteOnlyWithoutVolumes H pool vs of
       Inl e \<Rightarrow> Inl e
     | Inr b \<Rightarrow> Inr (b \<and> pd_deleteVolumes st))"

record pool_run =
  pr_state :: pool_delete
  pr_pending :: "pool_call list"

definition clickDelete :: "helpers \<Rightarrow> storage_pool \<Rightarrow> vm_obj list \<Rightarrow> pool_run \<Rightarrow> pool_run" where
  "clickDelete H pool vs r =
    (case deleteButtonDisabled H pool vs (pr_state r) of
       Inl e \<Rightarrow> r
     | Inr disabled \<Rightarrow>
         if disabled then r
         else case delete pool (pr_state r) of
                Inl e \<Rightarrow> r
              | Inr cs \<Rightarrow> r\<lparr>pr_pending := pr_pending r @ cs\<rparr>)"

text \<open>
  The disk dialog with its pending calls: a click on \<^verbatim>\<open>Add\<close>, and a change of the
  form, while calls are pending.
\<close>

record add_run =
  ar_state :: state
  ar_pending :: "ext_call list"

definition addClick :: "helpers \<Rightarrow> props \<Rightarrow> add_run \<Rightarrow> add_run" where
  "addClick H P r =
    (case clickAdd H P (ar_state r) of
       Inl e \<Rightarrow> r
     | Inr c \<Rightarrow> \<lparr> ar_state = after c, ar_pending = ar_pending r @ issued c \<rparr>)"

section \<open>An instance of the helpers\<close>

text \<open>
  \<^verbatim>\<open>helpers.js\<close> is not among the sources. To run the model on concrete inputs the
  closed statements below use this instance: messages are not translated, strings
  are compared character by character, sizes are converted by powers of 1024,
  the default format is \<^verbatim>\<open>none\<close> for a pool of type \<^verbatim>\<open>disk\<close> and \<^verbatim>\<open>qcow2\<close> for a
  file based pool, and the next target is the first free one of \<^verbatim>\<open>vda\<close>, \<^verbatim>\<open>vdb\<close>, ...
  (\<^verbatim>\<open>sda\<close>, ... for a bus other than \<^verbatim>\<open>virtio\<close>).
\<close>

fun compareStrings :: "string \<Rightarrow> string \<Rightarrow> int" where
  "compareStrings [] [] = 0"
| "compareStrings [] (b # bs) = -1"
| "compareStrings (a # as) [] = 1"
| "compareStrings (a # as) (b # bs) =
    (if (of_char a :: nat) < of_char b then -1
     else if (of_char b :: nat) < of_char a then 1
     else compareStrings as bs)"

definition unitExponent :: "string \<Rightarrow> nat" where
  "unitExponent u =
    (if u = ''KiB'' then 1 else if u = ''MiB'' then 2 else if u = ''GiB'' then 3
     else if u = ''TiB'' then 4 else 0)"

definition formatOfType :: "string \<Rightarrow> string option" where
  "formatOfType t =
    (if t = ''disk'' then Some ''none''
     else if t \<in> set fileBasedPoolTypes then Some ''qcow2''
     else None)"

definition nextTarget :: "string list \<Rightarrow> string \<Rightarrow> string option" where
  "nextTarget existingTargets bus =
    find (\<lambda>t. t \<notin> set existingTargets)
      (map (\<lambda>c. (if bus = ''virtio'' then ''vd'' else ''sd'') @ [c]) ''abcdefghijklmnopqrstuvwxyz'')"

definition sampleHelpers :: helpers where
  "sampleHelpers =
    \<lparr> gettext = (\<lambda>s. s),
      cockpit_format = (\<lambda>f args. concat (f # map (\<lambda>a. CHR '' '' # a) args)),
      toFixed = (\<lambda>x n. ''?''),
      convertToUnit = (\<lambda>x i u. x * 1024 ^ unitExponent i / 1024 ^ unitExponent u),
      getDefaultVolumeFormat =
        (\<lambda>a. case a of
                PoolObject p \<Rightarrow> formatOfType (pool_type p)
              | PoolNameType n t \<Rightarrow> formatOfType t
              | PoolNameOnly n \<Rightarrow> None),
      getNextAvailableTarget = nextTarget,
      getStorageVolumesUsage = (\<lambda>vs pool. []),
      getStorageVolumeDiskTarget = (\<lambda>v pool n. None),
      domainIsRunning = (\<lambda>s. s = ''running''),
      localeCompare = compareStrings,
      exceptionMessage = (\<lambda>e. ''TypeError'') \<rparr>"

section \<open>Sample inputs\<close>

text \<open>
  A machine with one disk on the \<^verbatim>\<open>virtio\<close> bus, and a pool of type \<^verbatim>\<open>dir\<close> with
  two free volumes. \<open>sampleState\<close> is the state of the dialog when it has loaded.
\<close>

definition sampleVolumes :: "storage_volume list" where
  "sampleVolumes =
    [ \<lparr> volume_name = ''b.qcow2'', volume_path = ''/var/lib/libvirt/images/b.qcow2'',
        volume_format = Some ''qcow2'' \<rparr>,
      \<lparr> volume_name = ''a.img'', volume_path = ''/var/lib/libvirt/images/a.img'',
        volume_format = Some ''raw'' \<rparr> ]"

definition samplePool :: storage_pool where
  "samplePool =
    \<lparr> pool_name = ''default'', pool_type = ''dir'', pool_connectionName = ''system'',
      pool_id = ''/pool/default'', pool_active = True, pool_capacity = 10737418240,
      pool_volumes = Some sampleVolumes \<rparr>"

definition sampleVm :: vm_obj where
  "sampleVm =
    \<lparr> vm_name = ''vm1'', vm_id = ''/domain/vm1'', vm_connectionName = ''system'',
      vm_state = ''shut off'', vm_persistent = True,
      vm_disks =
        [(''vda'', \<lparr> disk_device = ''disk'', disk_bus = Some ''virtio'',
                     disk_source = Some \<lparr> source_file = Some ''/var/lib/libvirt/images/vm1.qcow2'',
                                           source_volume = None, source_pool = None \<rparr> \<rparr>)] \<rparr>"

definition sampleProps :: props where
  "sampleProps = \<lparr> props_vm = sampleVm, props_vms = [sampleVm], props_storagePools = [samplePool] \<rparr>"

definition sampleState :: state where
  "sampleState =
    \<lparr> validate = False, dialogLoading = False, dialogError = None, dialogErrorDetail = None,
      storagePools = [samplePool], vm = sampleVm, vms = [sampleVm], fileV = [], device = ''disk'',
      storagePoolName = Some ''default'', storagePoolType = Some ''dir'', mode = CREATE_NEW,
      volumeName = None, existingVolumeName = None, sizeV = 1, unit = ''GiB'',
      format = Some ''qcow2'', target = Some ''vdb'', permanent = True, hotplug = False,
      addDiskInProgress = False, cacheMode = ''default'', busType = ''virtio'', updateDisks = False \<rparr>"

text \<open>The form filled in for a new volume of 11 GiB; the pool holds 10 GiB.\<close>

definition bigState :: state where
  "bigState = sampleState\<lparr>volumeName := Some ''new.qcow2'', sizeV := 11\<rparr>"

text \<open>
  The dialog in use-existing mode with the raw volume selected; the same with a pool
  whose volume list is not loaded; the form filled in for a new volume of 1 GiB; and
  the custom-path mode.
\<close>

definition existingState :: state where
  "existingState =
    sampleState\<lparr>mode := USE_EXISTING, existingVolumeName := Some ''a.img'', format := Some ''raw''\<rparr>"

definition unloadedPool :: storage_pool where
  "unloadedPool = samplePool\<lparr>pool_volumes := None\<rparr>"

definition unloadedState :: state where
  "unloadedState = existingState\<lparr>storagePools := [unloadedPool]\<rparr>"

definition newVolumeState :: state where
  "newVolumeState = sampleState\<lparr>volumeName := Some ''new.qcow2''\<rparr>"

text \<open>
  The properties after the last storage pool has gone, and the state the dialog is in
  when it then returns to create-new mode after a failed validation.
\<close>

definition noPoolProps :: props where
  "noPoolProps = sampleProps\<lparr>props_storagePools := []\<rparr>"

definition noPoolState :: state where
  "noPoolState =
    sampleState\<lparr>validate := True, storagePools := [], storagePoolName := None,
                storagePoolType := None, format := None\<rparr>"

text \<open>A machine that also has a CD drive on the \<^verbatim>\<open>sata\<close> bus.\<close>

definition cdromVm :: vm_obj where
  "cdromVm =
    sampleVm\<lparr>vm_disks :=
      vm_disks sampleVm @
      [(''sda'', \<lparr> disk_device = ''cdrom'', disk_bus = Some ''sata'',
                   disk_source = Some \<lparr> source_file = Some ''/var/lib/libvirt/images/install.iso'',
                                         source_volume = None, source_pool = None \<rparr> \<rparr>)]\<rparr>"

definition cdromProps :: props where
  "cdromProps = sampleProps\<lparr>props_vm := cdromVm, props_vms := [cdromVm]\<rparr>"





text \<open>Three boot devices, the first two with a boot order, and the dialog showing them.\<close>

definition diskDevice :: boot_device where
  "diskDevice = \<lparr> bd_type = ''disk'', bd_bootOrder = Some 1, bd_checked = True \<rparr>"

definition networkDevice :: boot_device where
  "networkDevice = \<lparr> bd_type = ''network'', bd_bootOrder = Some 2, bd_checked = True \<rparr>"

definition hostDevice :: boot_device where
  "hostDevice = \<lparr> bd_type = ''hostdev'', bd_bootOrder = None, bd_checked = False \<rparr>"

definition sampleDevices :: "boot_device option list" where
  "sampleDevices = [Some diskDevice, Some networkDevice, Some hostDevice]"

definition sampleBoot :: boot_run where
  "sampleBoot =
    \<lparr> br_modal = \<lparr> devices = sampleDevices, boot_dialogError = None, boot_dialogErrorDetail = None \<rparr>,
      br_pending = [] \<rparr>"

section \<open>Properties of the disk dialog: validation and submission\<close>

lemma sampleState_loaded: "loadedState sampleHelpers sampleProps = sampleState"
  by (simp add: sampleState_def loadedState_def initialState_def defaultPool_def sampleProps_def
      samplePool_def sampleVm_def sampleHelpers_def sortBy_def nextTarget_def units_GiB_name_def
      formatOfType_def fileBasedPoolTypes_def Let_def)

lemma validateParams_sampleState:
  "validateParams sampleHelpers sampleProps sampleState
     = Inr [(''volumeName'', ''Please enter new volume name'')]"
  by (simp add: validateParams_def sampleState_def sampleProps_def samplePool_def truthy_def
      sampleHelpers_def poolTypesNotSupportingVolumeCreation_def parseFloat_def units_B_def
      unitExponent_def)

text \<open>
  Claim C2. When \<^verbatim>\<open>validateParams\<close> returns a mapping that is not empty,
  \<^verbatim>\<open>onAddClicked\<close> issues no call at all (no promise is created, so no
  \<^verbatim>\<open>domainGet\<close> follows either), and the state it leaves differs from the state
  it found only in \<^verbatim>\<open>addDiskInProgress\<close>, set to false, and \<^verbatim>\<open>validate\<close>, set to
  true: every field of the form is as before.
\<close>

theorem onAddClicked_invalid:
  assumes "validateParams H P st = Inr v" and "v \<noteq> []"
  shows "onAddClicked H P st =
           Inr \<lparr> after = st\<lparr>addDiskInProgress := False, validate := True\<rparr>, issued = [],
                 captured = \<lparr> cap_vm = vm st, cap_vms = vms st, cap_existing = None \<rparr> \<rparr>
         \<and> submit H P st o1 o2 = Inr (st\<lparr>addDiskInProgress := False, validate := True\<rparr>, [])"
  using assms by (simp add: onAddClicked_def submit_def)

theorem onAddClicked_invalid_witness:
  "onAddClicked sampleHelpers sampleProps sampleState =
     Inr \<lparr> after = sampleState\<lparr>addDiskInProgress := False, validate := True\<rparr>, issued = [],
           captured = \<lparr> cap_vm = vm sampleState, cap_vms = vms sampleState, cap_existing = None \<rparr> \<rparr>
   \<and> submit sampleHelpers sampleProps sampleState Resolved Resolved
       = Inr (sampleState\<lparr>addDiskInProgress := False, validate := True\<rparr>, [])"
  using onAddClicked_invalid [OF validateParams_sampleState, of Resolved Resolved] by simp

lemma validateParams_size:
  assumes "mode st = CREATE_NEW"
    and "find (\<lambda>pool. Some (pool_name pool) = storagePoolName st) (props_storagePools P) = Some pool"
    and "sizeV st > parseFloat (convertToUnit H (pool_capacity pool) units_B (unit st))"
  shows "\<exists>v. validateParams H P st = Inr v \<and> v \<noteq> []
           \<and> map_of v ''size'' =
               Some (cockpit_format H
                       (gettext H ''Storage volume size must not exceed the storage pool's capacity ($0 $1)'')
                       [toFixed H (parseFloat (convertToUnit H (pool_capacity pool) units_B (unit st))) 2,
                        unit st])"
  using assms
  by (auto simp add: validateParams_def Let_def update_conv' split: option.splits)

text \<open>
  Claim C4. In create-new mode, when the selected pool is one of the pools of the
  properties and the requested size is greater than the capacity of that pool
  converted from bytes to the selected unit, \<^verbatim>\<open>validateParams\<close> returns a mapping
  with an entry for \<^verbatim>\<open>size\<close>, and the submission is rejected: it issues no call and
  only sets \<^verbatim>\<open>validate\<close>.
\<close>

theorem validateParams_size_exceeds_capacity:
  assumes "mode st = CREATE_NEW"
    and "find (\<lambda>pool. Some (pool_name pool) = storagePoolName st) (props_storagePools P) = Some pool"
    and "sizeV st > parseFloat (convertToUnit H (pool_capacity pool) units_B (unit st))"
  shows "\<exists>v. validateParams H P st = Inr v
           \<and> map_of v ''size'' =
               Some (cockpit_format H
                       (gettext H ''Storage volume size must not exceed the storage pool's capacity ($0 $1)'')
                       [toFixed H (parseFloat (convertToUnit H (pool_capacity pool) units_B (unit st))) 2,
                        unit st])
           \<and> submit H P st o1 o2 = Inr (st\<lparr>addDiskInProgress := False, validate := True\<rparr>, [])"
proof -
  from validateParams_size [OF assms] obtain v where
    v: "validateParams H P st = Inr v" "v \<noteq> []"
       "map_of v ''size'' =
               Some (cockpit_format H
                       (gettext H ''Storage volume size must not exceed the storage pool's capacity ($0 $1)'')
                       [toFixed H (parseFloat (convertToUnit H (pool_capacity pool) units_B (unit st))) 2,
                        unit st])"
    by blast
  from v(1,2) have "submit H P st o1 o2 = Inr (st\<lparr>addDiskInProgress := False, validate := True\<rparr>, [])"
    by (simp add: onAddClicked_def submit_def)
  with v show ?thesis by blast
qed

theorem validateParams_size_exceeds_capacity_witness:
  "validateParams sampleHelpers sampleProps bigState
     = Inr [(''size'', ''Storage volume size must not exceed the storage pool's capacity ($0 $1) ? GiB'')]
   \<and> submit sampleHelpers sampleProps bigState Resolved Resolved
       = Inr (bigState\<lparr>addDiskInProgress := False, validate := True\<rparr>, [])"
proof -
  have m: "mode bigState = CREATE_NEW"
    by (simp add: bigState_def sampleState_def)
  have f: "find (\<lambda>pool. Some (pool_name pool) = storagePoolName bigState) (props_storagePools sampleProps)
             = Some samplePool"
    by (simp add: bigState_def sampleState_def sampleProps_def samplePool_def)
  have s: "sizeV bigState
             > parseFloat (convertToUnit sampleHelpers (pool_capacity samplePool) units_B (unit bigState))"
    by (simp add: bigState_def sampleState_def samplePool_def sampleHelpers_def parseFloat_def
        units_B_def unitExponent_def)
  have v: "validateParams sampleHelpers sampleProps bigState
     = Inr [(''size'', ''Storage volume size must not exceed the storage pool's capacity ($0 $1) ? GiB'')]"
    by (simp add: validateParams_def bigState_def sampleState_def sampleProps_def samplePool_def
        truthy_def sampleHelpers_def poolTypesNotSupportingVolumeCreation_def parseFloat_def
        units_B_def unitExponent_def)
  from validateParams_size_exceeds_capacity [OF m f s, of Resolved Resolved] v
  show ?thesis by auto
qed

lemma find_never: "find (\<lambda>x. False) xs = None"
  by (induction xs) auto



lemma validateParams_create_new_unset_pool:
  "mode st = CREATE_NEW \<Longrightarrow> storagePoolName st = None \<Longrightarrow> validateParams H P st = Inl TypeError"
  by (simp add: validateParams_def Let_def find_never)

lemma validateParams_use_existing_unset_pool:
  "mode st = USE_EXISTING \<Longrightarrow> storagePoolName st = None \<Longrightarrow>
     \<exists>v. validateParams H P st = Inr v
       \<and> map_of v ''storagePool'' = Some (gettext H ''Please choose a storage pool'')"
  by (simp add: validateParams_def Let_def truthy_def update_conv')

lemma changed_Mode:
  "changed H P st (Mode m) =
     (if m = USE_EXISTING then
        (case storagePoolName (initialState H P st) of
           None \<Rightarrow> Inr ((initialState H P st)\<lparr>mode := m\<rparr>)
         | Some poolName \<Rightarrow>
             if poolName \<noteq> [] then
               (case getDefaultVolumeName H st poolName of
                  Inl e \<Rightarrow> Inl e
                | Inr v \<Rightarrow>
                    (case existingVolumeNameDelta H st v (storagePoolName st) of
                       Inl e \<Rightarrow> Inl e
                     | Inr delta \<Rightarrow> Inr (delta ((initialState H P st)\<lparr>mode := m\<rparr>))))
             else Inr ((initialState H P st)\<lparr>mode := m\<rparr>))
      else Inr ((initialState H P st)\<lparr>mode := m\<rparr>))"
  by (simp add: changed_def onValueChanged_def onModeChanged_def Let_def initialState_def
      split: option.splits sum.splits)

text \<open>
  Claim C3. With the mode use-existing and no pool selected, \<^verbatim>\<open>validateParams\<close>
  returns the entry \<^verbatim>\<open>storagePool\<close> with the message of the claim (lemma
  \<open>validateParams_use_existing_unset_pool\<close>). With the mode create-new it returns
  nothing: after the entry is stored, \<^verbatim>\<open>.find(...).capacity\<close> reads a property of
  \<^verbatim>\<open>undefined\<close> and raises (lemma \<open>validateParams_create_new_unset_pool\<close>). The
  theorem runs the dialog into such a state: a submission without a volume name
  sets \<^verbatim>\<open>validate\<close>; the user moves to custom-path; the last storage pool goes away;
  the user moves back to create-new; \<^verbatim>\<open>render\<close> then calls \<^verbatim>\<open>validateParams\<close>,
  which raises.
\<close>

theorem validateParams_no_pool_raises:
  "onAddClicked sampleHelpers sampleProps sampleState =
     Inr \<lparr> after = sampleState\<lparr>validate := True\<rparr>, issued = [],
           captured = \<lparr> cap_vm = sampleVm, cap_vms = [sampleVm], cap_existing = None \<rparr> \<rparr>
   \<and> changed sampleHelpers sampleProps (sampleState\<lparr>validate := True\<rparr>) (Mode CUSTOM_PATH)
       = Inr (sampleState\<lparr>validate := True, mode := CUSTOM_PATH\<rparr>)
   \<and> changed sampleHelpers noPoolProps (sampleState\<lparr>validate := True, mode := CUSTOM_PATH\<rparr>)
         (Mode CREATE_NEW)
       = Inr noPoolState
   \<and> validate noPoolState
   \<and> mode noPoolState = CREATE_NEW
   \<and> storagePoolName noPoolState = None
   \<and> validateParams sampleHelpers noPoolProps noPoolState = Inl TypeError"
proof -
  have 1: "onAddClicked sampleHelpers sampleProps sampleState =
     Inr \<lparr> after = sampleState\<lparr>validate := True\<rparr>, issued = [],
           captured = \<lparr> cap_vm = sampleVm, cap_vms = [sampleVm], cap_existing = None \<rparr> \<rparr>"
    by (simp add: onAddClicked_def validateParams_sampleState) (simp add: sampleState_def)
  have i: "initialState sampleHelpers sampleProps (sampleState\<lparr>validate := True\<rparr>)
             = sampleState\<lparr>validate := True\<rparr>"
    by (simp add: sampleState_def initialState_def defaultPool_def sampleProps_def
        samplePool_def sampleVm_def sampleHelpers_def sortBy_def nextTarget_def units_GiB_name_def
        formatOfType_def fileBasedPoolTypes_def Let_def)
  have 2: "changed sampleHelpers sampleProps (sampleState\<lparr>validate := True\<rparr>) (Mode CUSTOM_PATH)
       = Inr (sampleState\<lparr>validate := True, mode := CUSTOM_PATH\<rparr>)"
    by (simp add: changed_Mode i)
  have 3: "changed sampleHelpers noPoolProps (sampleState\<lparr>validate := True, mode := CUSTOM_PATH\<rparr>)
         (Mode CREATE_NEW) = Inr noPoolState"
    by (simp add: changed_Mode)
       (simp add: noPoolState_def sampleState_def initialState_def defaultPool_def noPoolProps_def
        sampleProps_def sampleVm_def sampleHelpers_def nextTarget_def units_GiB_name_def Let_def)
  have 4: "validateParams sampleHelpers noPoolProps noPoolState = Inl TypeError"
    by (rule validateParams_create_new_unset_pool) (simp_all add: noPoolState_def sampleState_def)
  from 1 2 3 4 show ?thesis by (simp add: noPoolState_def sampleState_def)
qed

lemma forEachUsing_no_attach:
  "filter isAttachOrCreate (fst (forEachUsing H vs pool evn names)) = []"
  by (induction names) (auto simp: isAttachOrCreate_def Let_def split: option.splits)

lemma callsOf_map_Call: "callsOf (map Call cs) = cs"
  by (induction cs) (auto simp: callsOf_def)

lemma callsOf_append: "callsOf (xs @ ys) = callsOf xs @ callsOf ys"
  by (simp add: callsOf_def)

lemma onAttachResolved_no_attach:
  "filter isAttachOrCreate (callsOf (fst (onAttachResolved H caps st))) = []"
  by (auto simp: onAttachResolved_def Let_def callsOf_append callsOf_map_Call forEachUsing_no_attach
        split: option.splits prod.splits)
     (simp_all add: callsOf_def isAttachOrCreate_def)

lemma settle_no_attach:
  "filter isAttachOrCreate (callsOf (snd (settle H c caps o1 o2 st))) = []"
  using onAttachResolved_no_attach [of H caps st]
  by (auto simp: settle_def onCreateResolved_def Let_def callsOf_def isAttachOrCreate_def
        split: ext_call.splits outcome.splits option.splits)

text \<open>
  When \<^verbatim>\<open>validateParams\<close> returns the empty mapping and, in use-existing mode, the
  selected pool is one of \<^verbatim>\<open>this.state.storagePools\<close> and has a volume list,
  \<^verbatim>\<open>onAddClicked\<close> issues exactly one call, and the calls of the whole submission
  hold no second attach or create call.
\<close>

lemma submit_valid_issues_one_call:
  assumes "validateParams H P st = Inr []"
    and "mode st = USE_EXISTING \<Longrightarrow> selectedPoolVolumes st \<noteq> None"
  shows "\<exists>r c. onAddClicked H P st = Inr r \<and> issued r = [c]
           \<and> (if mode st = CREATE_NEW then c = StorageVolumeCreateAndAttach (createArgs H st)
               else c = DomainAttachDisk (attachArgs st (cap_existing (captured r))))
           \<and> (\<exists>st' cs. submit H P st o1 o2 = Inr (st', cs) \<and> filter isAttachOrCreate cs = [c])"
proof (cases "mode st")
  case CREATE_NEW
  with assms(1) show ?thesis
    using settle_no_attach [of H "StorageVolumeCreateAndAttach (createArgs H st)"]
    by (simp add: onAddClicked_def submit_def Let_def isAttachOrCreate_def split_beta)
next
  case USE_EXISTING
  with assms(2) obtain pool vols where "selectedPool st = Some pool" "pool_volumes pool = Some vols"
    by (auto simp: selectedPoolVolumes_def split: option.splits)
  with assms(1) USE_EXISTING show ?thesis
    using settle_no_attach [of H "DomainAttachDisk a" for a]
    by (simp add: onAddClicked_def submit_def Let_def isAttachOrCreate_def split_beta)
next
  case CUSTOM_PATH
  with assms(1) show ?thesis
    using settle_no_attach [of H "DomainAttachDisk a" for a]
    by (simp add: onAddClicked_def submit_def Let_def isAttachOrCreate_def split_beta)
qed

text \<open>
  A state that \<^verbatim>\<open>render\<close> has shown with the \<^verbatim>\<open>Add\<close> button enabled has, in
  use-existing mode, its selected pool among its pools, with a volume list:
  \<^verbatim>\<open>SelectExistingVolume\<close> has read it.
\<close>

lemma rendered_selectedPoolVolumes:
  assumes "render H P st = Inr ()" and "\<not> addButtonDisabled st" and "mode st = USE_EXISTING"
  shows "selectedPoolVolumes st \<noteq> None"
proof -
  from assms(2,3) have l: "\<not> dialogLoading st" "length (storagePools st) > 0"
    by (auto simp: addButtonDisabled_def)
  with assms(1,3) obtain fv where "renderSelectExistingVolume H st = Inr fv"
    by (cases "renderSelectExistingVolume H st") (auto simp: render_def split: sum.splits if_splits)
  then show ?thesis
    by (auto simp: renderSelectExistingVolume_def getFilteredVolumes_def selectedPoolVolumes_def
          selectedPool_def split: option.splits)
qed

text \<open>
  The state with a selected pool whose volume list is not loaded shows why the
  reads of \<^verbatim>\<open>render\<close> matter: \<^verbatim>\<open>validateParams\<close> returns the empty mapping and
  \<^verbatim>\<open>onAddClicked\<close> would raise before issuing a call, but \<^verbatim>\<open>render\<close> raises on that
  state first, and so does the switch to use-existing that would lead to it.
\<close>

lemma onAddClicked_unloaded_pool_raises:
  "validateParams sampleHelpers sampleProps unloadedState = Inr []
   \<and> onAddClicked sampleHelpers sampleProps unloadedState = Inl TypeError
   \<and> render sampleHelpers sampleProps unloadedState = Inl TypeError
   \<and> changed sampleHelpers sampleProps (sampleState\<lparr>storagePools := [unloadedPool]\<rparr>) (Mode USE_EXISTING)
       = Inl TypeError"
  by (simp add: validateParams_def onAddClicked_def render_def renderSelectExistingVolume_def
      getFilteredVolumes_def getDefaultVolumeName_def changed_Mode initialState_def defaultPool_def
      sortBy_def unloadedState_def existingState_def sampleState_def sampleProps_def unloadedPool_def
      samplePool_def sampleHelpers_def truthy_def selectedPool_def Let_def)

text \<open>
  Claim C1. In every state of the dialog in which \<^verbatim>\<open>onAddClicked\<close> can be invoked
  (\<^verbatim>\<open>render\<close> has shown the state and the \<^verbatim>\<open>Add\<close> button is enabled) and in which
  \<^verbatim>\<open>validateParams\<close> returns the empty mapping, one invocation of \<^verbatim>\<open>onAddClicked\<close>
  issues exactly one call: \<^verbatim>\<open>storageVolumeCreateAndAttach\<close> in create-new mode and
  \<^verbatim>\<open>domainAttachDisk\<close> in use-existing and custom-path mode. Whatever the outcome of
  the call and of the \<^verbatim>\<open>domainGet\<close> after it, the calls of the whole submission
  hold this one attach or create call and no other.
\<close>

theorem onAddClicked_issues_one_call:
  assumes "validateParams H P st = Inr []"
    and "render H P st = Inr ()"
    and "\<not> addButtonDisabled st"
  shows "\<exists>r c. onAddClicked H P st = Inr r \<and> issued r = [c]
           \<and> (if mode st = CREATE_NEW then c = StorageVolumeCreateAndAttach (createArgs H st)
               else c = DomainAttachDisk (attachArgs st (cap_existing (captured r))))
           \<and> (\<exists>st' cs. submit H P st o1 o2 = Inr (st', cs) \<and> filter isAttachOrCreate cs = [c])"
  using submit_valid_issues_one_call [OF assms(1) rendered_selectedPoolVolumes [OF assms(2,3)]] .

theorem onAddClicked_issues_one_call_witness:
  "validateParams sampleHelpers sampleProps existingState = Inr []
   \<and> render sampleHelpers sampleProps existingState = Inr ()
   \<and> \<not> addButtonDisabled existingState
   \<and> mode existingState = USE_EXISTING
   \<and> (\<exists>r c. onAddClicked sampleHelpers sampleProps existingState = Inr r \<and> issued r = [c]
         \<and> c = DomainAttachDisk (attachArgs existingState (cap_existing (captured r)))
         \<and> (\<exists>st' cs. submit sampleHelpers sampleProps existingState Resolved (Rejected ''gone'') = Inr (st', cs)
               \<and> filter isAttachOrCreate cs = [c]))
   \<and> validateParams sampleHelpers sampleProps newVolumeState = Inr []
   \<and> render sampleHelpers sampleProps newVolumeState = Inr ()
   \<and> \<not> addButtonDisabled newVolumeState
   \<and> mode newVolumeState = CREATE_NEW
   \<and> (\<exists>r c. onAddClicked sampleHelpers sampleProps newVolumeState = Inr r \<and> issued r = [c]
         \<and> c = StorageVolumeCreateAndAttach (createArgs sampleHelpers newVolumeState)
         \<and> (\<exists>st' cs. submit sampleHelpers sampleProps newVolumeState (Rejected ''full'') Resolved = Inr (st', cs)
               \<and> filter isAttachOrCreate cs = [c]))"
proof -
  have v: "validateParams sampleHelpers sampleProps existingState = Inr []"
    by (simp add: validateParams_def existingState_def sampleState_def truthy_def)
  have m: "mode existingState = USE_EXISTING"
    by (simp add: existingState_def sampleState_def)
  have r: "render sampleHelpers sampleProps existingState = Inr ()"
    by (simp add: render_def renderSelectExistingVolume_def renderChangeShareable_def
        getFilteredVolumes_def selectedPool_def usageOf_def existingState_def sampleState_def
        samplePool_def sampleHelpers_def)
  have b: "\<not> addButtonDisabled existingState"
    by (simp add: addButtonDisabled_def existingState_def sampleState_def)
  from onAddClicked_issues_one_call [OF v r b, of Resolved "Rejected ''gone''"] m
  have e: "\<exists>r c. onAddClicked sampleHelpers sampleProps existingState = Inr r \<and> issued r = [c]
         \<and> c = DomainAttachDisk (attachArgs existingState (cap_existing (captured r)))
         \<and> (\<exists>st' cs. submit sampleHelpers sampleProps existingState Resolved (Rejected ''gone'') = Inr (st', cs)
               \<and> filter isAttachOrCreate cs = [c])"
    by simp
  have v': "validateParams sampleHelpers sampleProps newVolumeState = Inr []"
    by (simp add: validateParams_def newVolumeState_def sampleState_def sampleProps_def samplePool_def
        truthy_def sampleHelpers_def poolTypesNotSupportingVolumeCreation_def parseFloat_def
        units_B_def unitExponent_def)
  have m': "mode newVolumeState = CREATE_NEW"
    by (simp add: newVolumeState_def sampleState_def)
  have r': "render sampleHelpers sampleProps newVolumeState = Inr ()"
    by (simp add: render_def newVolumeState_def sampleState_def)
  have b': "\<not> addButtonDisabled newVolumeState"
    by (simp add: addButtonDisabled_def newVolumeState_def sampleState_def)
  from onAddClicked_issues_one_call [OF v' r' b', of "Rejected ''full''" Resolved] m'
  have n: "\<exists>r c. onAddClicked sampleHelpers sampleProps newVolumeState = Inr r \<and> issued r = [c]
         \<and> c = StorageVolumeCreateAndAttach (createArgs sampleHelpers newVolumeState)
         \<and> (\<exists>st' cs. submit sampleHelpers sampleProps newVolumeState (Rejected ''full'') Resolved = Inr (st', cs)
               \<and> filter isAttachOrCreate cs = [c])"
    by simp
  from v r b m e v' r' b' m' n show ?thesis by (intro conjI)
qed

lemma onAddClicked_issued:
  assumes "onAddClicked H P st = Inr r" and "issued r = c # cs"
  shows "cs = [] \<and> (if mode st = CREATE_NEW then (\<exists>a. c = StorageVolumeCreateAndAttach a)
                      else (\<exists>a. c = DomainAttachDisk a))"
  using assms
  by (auto simp: onAddClicked_def Let_def split: sum.splits if_splits option.splits)

lemma onAddClicked_newVolumeState:
  "onAddClicked sampleHelpers sampleProps newVolumeState =
     Inr \<lparr> after = newVolumeState\<lparr>addDiskInProgress := True, validate := False\<rparr>,
           issued = [StorageVolumeCreateAndAttach (createArgs sampleHelpers newVolumeState)],
           captured = \<lparr> cap_vm = sampleVm, cap_vms = [sampleVm], cap_existing = None \<rparr> \<rparr>"
  by (simp add: onAddClicked_def validateParams_def newVolumeState_def sampleState_def
      sampleProps_def samplePool_def truthy_def sampleHelpers_def
      poolTypesNotSupportingVolumeCreation_def parseFloat_def units_B_def unitExponent_def)

text \<open>
  Claim C8. When the attach or create call that \<^verbatim>\<open>onAddClicked\<close> issued rejects with
  a message, the \<^verbatim>\<open>.catch\<close> handler leaves the state it finds (\<open>s\<close>, whatever the
  user did meanwhile) as it is but for three fields: \<^verbatim>\<open>addDiskInProgress\<close> becomes
  false, \<^verbatim>\<open>dialogError\<close> the title of the failure and \<^verbatim>\<open>dialogErrorDetail\<close> the
  message of the rejection. It issues no call. For a submission with nothing in
  between, the call that was rejected is the only call of the submission.
\<close>

theorem rejected_call_reenables_form:
  assumes "onAddClicked H P st = Inr r" and "issued r = c # cs"
  shows "cs = [] \<and> isAttachOrCreate c
       \<and> settle H c (captured r) (Rejected m) o2 s =
           (s\<lparr>addDiskInProgress := False,
               dialogError := Some (gettext H (if mode st = CREATE_NEW then ''Disk failed to be created''
                                               else ''Disk failed to be attached'')),
               dialogErrorDetail := Some m\<rparr>, [])
       \<and> submit H P st (Rejected m) o2 =
           Inr ((after r)\<lparr>addDiskInProgress := False,
                  dialogError := Some (gettext H (if mode st = CREATE_NEW then ''Disk failed to be created''
                                                  else ''Disk failed to be attached'')),
                  dialogErrorDetail := Some m\<rparr>, [c])"
  using onAddClicked_issued [OF assms] assms
  by (auto simp: settle_def submit_def onCreateRejected_def onAttachRejected_def dialogErrorSet_def
        isAttachOrCreate_def callsOf_def)

theorem rejected_call_reenables_form_witness:
  "submit sampleHelpers sampleProps newVolumeState (Rejected ''no space left'') Resolved =
     Inr (newVolumeState\<lparr>validate := False, addDiskInProgress := False,
            dialogError := Some ''Disk failed to be created'',
            dialogErrorDetail := Some ''no space left''\<rparr>,
          [StorageVolumeCreateAndAttach (createArgs sampleHelpers newVolumeState)])
   \<and> isAttachOrCreate (StorageVolumeCreateAndAttach (createArgs sampleHelpers newVolumeState))"
proof -
  have i: "issued \<lparr> after = newVolumeState\<lparr>addDiskInProgress := True, validate := False\<rparr>,
           issued = [StorageVolumeCreateAndAttach (createArgs sampleHelpers newVolumeState)],
           captured = \<lparr> cap_vm = sampleVm, cap_vms = [sampleVm], cap_existing = None \<rparr> \<rparr>
          = StorageVolumeCreateAndAttach (createArgs sampleHelpers newVolumeState) # []"
    by simp
  from rejected_call_reenables_form [OF onAddClicked_newVolumeState i, of "''no space left''" Resolved]
  show ?thesis
    by (simp add: newVolumeState_def sampleState_def sampleHelpers_def)
qed

section \<open>Properties of the busy flag\<close>

lemma addClick_while_busy: "addDiskInProgress (ar_state r) \<Longrightarrow> addClick H P r = r"
  by (simp add: addClick_def clickAdd_def addButtonDisabled_def)

lemma clickSave_appends:
  "those (devices (br_modal r)) = Some ds \<Longrightarrow>
     clickSave v r = r\<lparr>br_pending := br_pending r
                        @ [DomainChangeBootOrder (vm_id v) (vm_connectionName v) (filter bd_checked ds)]\<rparr>"
  by (simp add: clickSave_def save_def saveButtonDisabled_def)

lemma clickDelete_appends:
  "deleteButtonDisabled H pool vs (pr_state r) = Inr False \<Longrightarrow> delete pool (pr_state r) = Inr cs \<Longrightarrow>
     clickDelete H pool vs r = r\<lparr>pr_pending := pr_pending r @ cs\<rparr>"
  by (simp add: clickDelete_def)

text \<open>
  Two more runs that leave several calls pending: two clicks on \<^verbatim>\<open>Add\<close> in
  custom-path mode, where \<^verbatim>\<open>onAddClicked\<close> does not set \<^verbatim>\<open>addDiskInProgress\<close>, and
  one click on \<^verbatim>\<open>Delete\<close> with \<^verbatim>\<open>deleteVolumes\<close> set, which starts the deletion of
  every volume of the pool at once.
\<close>

lemma custom_path_two_clicks_pending:
  "length (ar_pending (addClick sampleHelpers sampleProps
             (addClick sampleHelpers sampleProps
                \<lparr> ar_state = sampleState\<lparr>mode := CUSTOM_PATH, fileV := ''/srv/data.img''\<rparr>,
                  ar_pending = [] \<rparr>))) = 2"
  by (simp add: addClick_def clickAdd_def addButtonDisabled_def onAddClicked_def validateParams_def
      sampleState_def truthy_def)

lemma delete_with_volumes_pending:
  "delete samplePool \<lparr> pd_dialogError = None, pd_dialogErrorDetail = None, pd_deleteVolumes = True \<rparr>
     = Inr [StorageVolumeDelete ''system'' ''default'' ''b.qcow2'',
            StorageVolumeDelete ''system'' ''default'' ''a.img'']"
  by (simp add: delete_def samplePool_def sampleVolumes_def)

text \<open>
  Claim C9, the counterexample. The boot order dialog has no busy flag and its
  \<^verbatim>\<open>Save\<close> button is never disabled: two clicks leave two \<^verbatim>\<open>domainChangeBootOrder\<close>
  calls pending at once.
\<close>

theorem bootOrder_two_saves_pending:
  "br_pending (clickSave sampleVm (clickSave sampleVm sampleBoot)) =
     [ DomainChangeBootOrder ''/domain/vm1'' ''system'' [diskDevice, networkDevice],
       DomainChangeBootOrder ''/domain/vm1'' ''system'' [diskDevice, networkDevice] ]"
  by (simp add: clickSave_def save_def saveButtonDisabled_def sampleBoot_def sampleDevices_def
      sampleVm_def diskDevice_def networkDevice_def hostDevice_def)

text \<open>
  Claim C9, as amended. Only the disk dialog has a busy flag, and it is set only by
  a create-new submission: the click sets \<^verbatim>\<open>addDiskInProgress\<close> and issues
  \<^verbatim>\<open>storageVolumeCreateAndAttach\<close>; with the flag set the \<^verbatim>\<open>Add\<close> button is
  disabled, so that a second click changes nothing and issues nothing; a rejection
  of the call clears the flag. In the boot order dialog every click on \<^verbatim>\<open>Save\<close>,
  and in the storage pool deletion dialog every click on an enabled \<^verbatim>\<open>Delete\<close>,
  adds its calls to the pending ones, whatever is pending already.
\<close>

theorem create_new_sets_busy_flag:
  assumes "validateParams H P st = Inr []" and "mode st = CREATE_NEW" and "\<not> addButtonDisabled st"
  shows "addClick H P \<lparr> ar_state = st, ar_pending = pending \<rparr>
           = \<lparr> ar_state = st\<lparr>addDiskInProgress := True, validate := False\<rparr>,
               ar_pending = pending @ [StorageVolumeCreateAndAttach (createArgs H st)] \<rparr>
       \<and> addButtonDisabled (st\<lparr>addDiskInProgress := True, validate := False\<rparr>)
       \<and> addClick H P (addClick H P \<lparr> ar_state = st, ar_pending = pending \<rparr>)
           = addClick H P \<lparr> ar_state = st, ar_pending = pending \<rparr>
       \<and> \<not> addDiskInProgress (onCreateRejected H message s)
       \<and> (\<forall>v r ds. those (devices (br_modal r)) = Some ds \<longrightarrow>
             clickSave v r = r\<lparr>br_pending := br_pending r
                        @ [DomainChangeBootOrder (vm_id v) (vm_connectionName v) (filter bd_checked ds)]\<rparr>)
       \<and> (\<forall>pool vs r cs. deleteButtonDisabled H pool vs (pr_state r) = Inr False
               \<and> delete pool (pr_state r) = Inr cs \<longrightarrow>
             clickDelete H pool vs r = r\<lparr>pr_pending := pr_pending r @ cs\<rparr>)"
proof -
  have c: "addClick H P \<lparr> ar_state = st, ar_pending = pending \<rparr>
           = \<lparr> ar_state = st\<lparr>addDiskInProgress := True, validate := False\<rparr>,
               ar_pending = pending @ [StorageVolumeCreateAndAttach (createArgs H st)] \<rparr>"
    using assms by (simp add: addClick_def clickAdd_def onAddClicked_def)
  have d: "addButtonDisabled (st\<lparr>addDiskInProgress := True, validate := False\<rparr>)"
    by (simp add: addButtonDisabled_def)
  have e: "addClick H P (addClick H P \<lparr> ar_state = st, ar_pending = pending \<rparr>)
           = addClick H P \<lparr> ar_state = st, ar_pending = pending \<rparr>"
    unfolding c by (rule addClick_while_busy) simp
  have f: "\<not> addDiskInProgress (onCreateRejected H message s)"
    by (simp add: onCreateRejected_def dialogErrorSet_def)
  from c d e f clickSave_appends clickDelete_appends show ?thesis by blast
qed

theorem create_new_sets_busy_flag_witness:
  "validateParams sampleHelpers sampleProps newVolumeState = Inr []
   \<and> mode newVolumeState = CREATE_NEW
   \<and> \<not> addButtonDisabled newVolumeState
   \<and> addClick sampleHelpers sampleProps \<lparr> ar_state = newVolumeState, ar_pending = [] \<rparr>
       = \<lparr> ar_state = newVolumeState\<lparr>addDiskInProgress := True, validate := False\<rparr>,
           ar_pending = [StorageVolumeCreateAndAttach (createArgs sampleHelpers newVolumeState)] \<rparr>
   \<and> addClick sampleHelpers sampleProps
        (addClick sampleHelpers sampleProps \<lparr> ar_state = newVolumeState, ar_pending = [] \<rparr>)
       = addClick sampleHelpers sampleProps \<lparr> ar_state = newVolumeState, ar_pending = [] \<rparr>"
proof -
  have v: "validateParams sampleHelpers sampleProps newVolumeState = Inr []"
    by (simp add: validateParams_def newVolumeState_def sampleState_def
      sampleProps_def samplePool_def truthy_def sampleHelpers_def
      poolTypesNotSupportingVolumeCreation_def parseFloat_def units_B_def unitExponent_def)
  have m: "mode newVolumeState = CREATE_NEW"
    by (simp add: newVolumeState_def sampleState_def)
  have b: "\<not> addButtonDisabled newVolumeState"
    by (simp add: addButtonDisabled_def newVolumeState_def sampleState_def)
  note t = create_new_sets_busy_flag [OF v m b, where pending = "[]" and message = "[]"
      and s = newVolumeState]
  from conjunct1 [OF t]
  have t1: "addClick sampleHelpers sampleProps \<lparr> ar_state = newVolumeState, ar_pending = [] \<rparr>
       = \<lparr> ar_state = newVolumeState\<lparr>addDiskInProgress := True, validate := False\<rparr>,
           ar_pending = [StorageVolumeCreateAndAttach (createArgs sampleHelpers newVolumeState)] \<rparr>"
    by simp
  from conjunct1 [OF conjunct2 [OF conjunct2 [OF t]]]
  have t3: "addClick sampleHelpers sampleProps
        (addClick sampleHelpers sampleProps \<lparr> ar_state = newVolumeState, ar_pending = [] \<rparr>)
       = addClick sampleHelpers sampleProps \<lparr> ar_state = newVolumeState, ar_pending = [] \<rparr>" .
  from v m b t1 t3 show ?thesis by (intro conjI)
qed

section \<open>Properties of the disk dialog: changes of the form\<close>

text \<open>
  Claim C5, the counterexample. The machine already has a CD drive on the \<^verbatim>\<open>sata\<close>
  bus. With the bus \<^verbatim>\<open>virtio\<close> selected, choosing the device \<^verbatim>\<open>cdrom\<close> gives the bus
  \<^verbatim>\<open>sata\<close> of that drive, not \<^verbatim>\<open>scsi\<close>.
\<close>

theorem device_cdrom_takes_existing_bus:
  "busType sampleState = ''virtio''
   \<and> changed sampleHelpers cdromProps sampleState (Device ''cdrom'')
       = Inr (sampleState\<lparr>device := ''cdrom'', busType := ''sata'', target := Some ''sdb''\<rparr>)"
  by (simp add: changed_def onValueChanged_def onDeviceChanged_def onBusTypeChanged_def
      sameDeviceBus_def setState_def cdromProps_def cdromVm_def sampleProps_def sampleVm_def
      sampleState_def sampleHelpers_def nextTarget_def Let_def)

text \<open>
  Claim C5, as amended. For every dialog state whose bus is \<^verbatim>\<open>virtio\<close>,
  \<^verbatim>\<open>onValueChanged("device", "cdrom")\<close> yields the state with the device \<^verbatim>\<open>cdrom\<close>,
  with the bus of the first disk of the machine whose device is \<^verbatim>\<open>cdrom\<close>, if there
  is one and it has a bus, and the bus \<^verbatim>\<open>scsi\<close> otherwise, and with the target
  recomputed for that bus. Nothing else changes.
\<close>

theorem device_cdrom_on_virtio:
  assumes "busType st = ''virtio''"
  shows "changed H P st (Device ''cdrom'') =
           (let bus = (case sameDeviceBus P ''cdrom'' of
                         Some newBus \<Rightarrow> if newBus \<noteq> [] then newBus else ''scsi''
                       | None \<Rightarrow> ''scsi'')
            in Inr (st\<lparr>device := ''cdrom'', busType := bus,
                        target := getNextAvailableTarget H (map fst (vm_disks (props_vm P))) bus\<rparr>))"
  using assms
  by (simp add: changed_def onValueChanged_def onDeviceChanged_def onBusTypeChanged_def
      setState_def Let_def split: option.splits)

theorem device_cdrom_on_virtio_witness:
  "busType sampleState = ''virtio''
   \<and> sameDeviceBus sampleProps ''cdrom'' = None
   \<and> changed sampleHelpers sampleProps sampleState (Device ''cdrom'')
       = Inr (sampleState\<lparr>device := ''cdrom'', busType := ''scsi'', target := Some ''sda''\<rparr>)"
proof -
  have b: "busType sampleState = ''virtio''"
    by (simp add: sampleState_def)
  have n: "sameDeviceBus sampleProps ''cdrom'' = None"
    by (simp add: sameDeviceBus_def sampleProps_def sampleVm_def)
  have t: "getNextAvailableTarget sampleHelpers (map fst (vm_disks (props_vm sampleProps))) ''scsi''
             = Some ''sda''"
    by (simp add: sampleHelpers_def nextTarget_def sampleProps_def sampleVm_def)
  from device_cdrom_on_virtio [OF b, of sampleHelpers sampleProps] b n t
  show ?thesis by simp
qed






























section \<open>Properties of the boot order dialog\<close>

lemma indexOf_found:
  "indexOf xs x = int i \<Longrightarrow> i < length xs \<and> xs ! i = x \<and> (\<forall>j<i. xs ! j \<noteq> x)"
proof (induction xs arbitrary: i)
  case Nil
  then show ?case by simp
next
  case (Cons y ys)
  show ?case
  proof (cases "y = x")
    case True
    with Cons.prems show ?thesis by simp
  next
    case False
    with Cons.prems have r: "indexOf ys x \<ge> 0" "indexOf ys x + 1 = int i"
      by (auto simp: Let_def split: if_splits)
    then obtain k where k: "i = Suc k" "indexOf ys x = int k"
      by (cases i) auto
    from Cons.IH [OF k(2)] False k(1) show ?thesis
      by (auto simp: nth_Cons less_Suc_eq_0_disj split: nat.splits)
  qed
qed

lemma indexOf_first:
  "i < length xs \<Longrightarrow> xs ! i = x \<Longrightarrow> (\<forall>j<i. xs ! j \<noteq> x) \<Longrightarrow> indexOf xs x = int i"
proof (induction xs arbitrary: i)
  case Nil
  then show ?case by simp
next
  case (Cons y ys)
  show ?case
  proof (cases i)
    case 0
    with Cons.prems show ?thesis by simp
  next
    case (Suc k)
    with Cons.prems have "y \<noteq> x" by auto
    moreover from Suc Cons.prems have "indexOf ys x = int k"
      by (intro Cons.IH) auto
    ultimately show ?thesis using Suc by (simp add: Let_def)
  qed
qed

text \<open>
  The rows of \<^verbatim>\<open>render\<close> hand \<^verbatim>\<open>moveUp\<close> and \<^verbatim>\<open>moveDown\<close> the element of their own
  index. In a list of different objects that index is the one \<^verbatim>\<open>indexOf\<close> finds.
\<close>

lemma indexOf_distinct:
  assumes "distinct xs" and "i < length xs"
  shows "indexOf xs (xs ! i) = int i"
proof (rule indexOf_first)
  show "i < length xs" by (rule assms(2))
  show "xs ! i = xs ! i" by simp
  show "\<forall>j<i. xs ! j \<noteq> xs ! i"
    using assms by (auto simp: nth_eq_iff_index_eq)
qed

lemma moveUp_swap:
  assumes "indexOf devs d = int i" and "0 < i"
  shows "moveUp devs d = devs[i - 1 := devs ! i, i := devs ! (i - 1)]"
proof -
  from indexOf_found [OF assms(1)] have i: "i < length devs" by simp
  with assms show ?thesis
    by (simp add: moveUp_def jsGet_def jsSet_def Let_def nat_diff_distrib' int_ops)
qed

lemma moveDown_swap:
  assumes "indexOf devs d = int i" and "i + 1 < length devs"
  shows "moveDown devs d = devs[i + 1 := devs ! i, i := devs ! (i + 1)]"
  using assms
  by (simp add: moveDown_def jsGet_def jsSet_def Let_def nat_add_distrib)

lemma indexOf_after_moveUp:
  assumes "indexOf devs d = int i" and "0 < i"
  shows "indexOf (devs[i - 1 := devs ! i, i := devs ! (i - 1)]) d = int (i - 1)"
proof -
  from indexOf_found [OF assms(1)] have f: "i < length devs" "devs ! i = d" "\<forall>j<i. devs ! j \<noteq> d"
    by auto
  show ?thesis
  proof (rule indexOf_first)
    show "i - 1 < length (devs[i - 1 := devs ! i, i := devs ! (i - 1)])" using f by simp
    show "devs[i - 1 := devs ! i, i := devs ! (i - 1)] ! (i - 1) = d"
      using f assms(2) by (simp add: nth_list_update)
    show "\<forall>j<i - 1. devs[i - 1 := devs ! i, i := devs ! (i - 1)] ! j \<noteq> d"
      using f by (auto simp: nth_list_update)
  qed
qed

lemma swap_twice:
  assumes "i < length (xs::'a list)" and "0 < i"
  shows "(xs[i - 1 := xs ! i, i := xs ! (i - 1)])
           [i - 1 + 1 := (xs[i - 1 := xs ! i, i := xs ! (i - 1)]) ! (i - 1),
            i - 1 := (xs[i - 1 := xs ! i, i := xs ! (i - 1)]) ! (i - 1 + 1)] = xs"
  using assms by (auto simp: list_eq_iff_nth_eq nth_list_update)

text \<open>
  Claim C10. Let \<open>i\<close> be the index of the device in the list, as \<^verbatim>\<open>indexOf\<close> finds
  it. If \<open>0 < i\<close>, \<^verbatim>\<open>moveUp\<close> exchanges the elements at \<open>i - 1\<close> and \<open>i\<close> and leaves
  every other position and the length as they are; if \<open>i + 1\<close> is within the list,
  \<^verbatim>\<open>moveDown\<close> exchanges the elements at \<open>i\<close> and \<open>i + 1\<close> in the same way. Both keep
  the multiset of the devices, and \<^verbatim>\<open>moveDown\<close> of the device after \<^verbatim>\<open>moveUp\<close> of it
  gives the list back.
\<close>

theorem moveUp_moveDown_swap:
  assumes "indexOf devs d = int i"
  shows "(0 < i \<longrightarrow>
            moveUp devs d = devs[i - 1 := devs ! i, i := devs ! (i - 1)]
          \<and> length (moveUp devs d) = length devs
          \<and> moveUp devs d ! (i - 1) = devs ! i
          \<and> moveUp devs d ! i = devs ! (i - 1)
          \<and> (\<forall>k. k \<noteq> i \<and> k \<noteq> i - 1 \<longrightarrow> moveUp devs d ! k = devs ! k)
          \<and> mset (moveUp devs d) = mset devs
          \<and> moveDown (moveUp devs d) d = devs)
       \<and> (i + 1 < length devs \<longrightarrow>
            moveDown devs d = devs[i + 1 := devs ! i, i := devs ! (i + 1)]
          \<and> length (moveDown devs d) = length devs
          \<and> moveDown devs d ! (i + 1) = devs ! i
          \<and> moveDown devs d ! i = devs ! (i + 1)
          \<and> (\<forall>k. k \<noteq> i \<and> k \<noteq> i + 1 \<longrightarrow> moveDown devs d ! k = devs ! k)
          \<and> mset (moveDown devs d) = mset devs)"
proof -
  from indexOf_found [OF assms] have f: "i < length devs" "devs ! i = d" by auto
  have up: "moveUp devs d = devs[i - 1 := devs ! i, i := devs ! (i - 1)]" if "0 < i"
    using moveUp_swap [OF assms that] .
  have restore: "moveDown (moveUp devs d) d = devs" if "0 < i"
  proof -
    have "moveDown (devs[i - 1 := devs ! i, i := devs ! (i - 1)]) d
            = (devs[i - 1 := devs ! i, i := devs ! (i - 1)])
                [i - 1 + 1 := (devs[i - 1 := devs ! i, i := devs ! (i - 1)]) ! (i - 1),
                 i - 1 := (devs[i - 1 := devs ! i, i := devs ! (i - 1)]) ! (i - 1 + 1)]"
      using f that by (intro moveDown_swap indexOf_after_moveUp [OF assms that]) simp
    with swap_twice [OF f(1) that] up [OF that] show ?thesis by simp
  qed
  have down: "moveDown devs d = devs[i + 1 := devs ! i, i := devs ! (i + 1)]" if "i + 1 < length devs"
    using moveDown_swap [OF assms that] .
  have m1: "mset (devs[i - 1 := devs ! i, i := devs ! (i - 1)]) = mset devs" if "0 < i"
    using f(1) that mset_swap [of i devs "i - 1"] by simp
  have m2: "mset (devs[i + 1 := devs ! i, i := devs ! (i + 1)]) = mset devs" if "i + 1 < length devs"
    using that mset_swap [of i devs "i + 1"] by simp
  show ?thesis
    using up restore down m1 m2 f by (auto simp: nth_list_update)
qed

theorem moveUp_moveDown_swap_witness:
  "indexOf sampleDevices (Some networkDevice) = 1
   \<and> moveUp sampleDevices (Some networkDevice) = [Some networkDevice, Some diskDevice, Some hostDevice]
   \<and> moveDown (moveUp sampleDevices (Some networkDevice)) (Some networkDevice) = sampleDevices
   \<and> mset (moveUp sampleDevices (Some networkDevice)) = mset sampleDevices
   \<and> moveDown sampleDevices (Some networkDevice) = [Some diskDevice, Some hostDevice, Some networkDevice]
   \<and> mset (moveDown sampleDevices (Some networkDevice)) = mset sampleDevices"
proof -
  have i: "indexOf sampleDevices (Some networkDevice) = int 1"
    by (simp add: sampleDevices_def diskDevice_def networkDevice_def hostDevice_def)
  note t = moveUp_moveDown_swap [OF i]
  have u: "(0::nat) < 1" by simp
  have l: "(1::nat) + 1 < length sampleDevices" by (simp add: sampleDevices_def)
  from conjunct1 [OF t] u
  have a: "moveUp sampleDevices (Some networkDevice)
             = sampleDevices[1 - 1 := sampleDevices ! 1, 1 := sampleDevices ! (1 - 1)]"
    and b: "mset (moveUp sampleDevices (Some networkDevice)) = mset sampleDevices"
    and c: "moveDown (moveUp sampleDevices (Some networkDevice)) (Some networkDevice) = sampleDevices"
    by blast+
  from conjunct2 [OF t] l
  have d: "moveDown sampleDevices (Some networkDevice)
             = sampleDevices[1 + 1 := sampleDevices ! 1, 1 := sampleDevices ! (1 + 1)]"
    and e: "mset (moveDown sampleDevices (Some networkDevice)) = mset sampleDevices"
    by blast+
  from a have a': "moveUp sampleDevices (Some networkDevice)
                     = [Some networkDevice, Some diskDevice, Some hostDevice]"
    by (simp add: sampleDevices_def)
  from d have d': "moveDown sampleDevices (Some networkDevice)
                     = [Some diskDevice, Some hostDevice, Some networkDevice]"
    by (simp add: sampleDevices_def)
  from i a' b c d' e show ?thesis by simp
qed

text \<open>
  The guards of \<^verbatim>\<open>render\<close> keep the two functions within the list: the first row has
  no enabled up arrow and the last row no enabled down arrow. Without the guards the
  list would be damaged: \<^verbatim>\<open>moveUp\<close> of the first device replaces it by
  \<^verbatim>\<open>undefined\<close>, and \<^verbatim>\<open>moveDown\<close> of the last one makes the list longer.
\<close>

lemma upDisabled_first_row: "upDisabled devs 0 = Inr True"
  by (simp add: upDisabled_def)

lemma downDisabled_last_row: "index + 1 = length devs \<Longrightarrow> downDisabled devs index = Inr True"
  by (simp add: downDisabled_def)

lemma moveUp_first_device:
  "moveUp sampleDevices (Some diskDevice) = [None, Some networkDevice, Some hostDevice]"
  by (simp add: moveUp_def jsGet_def jsSet_def sampleDevices_def diskDevice_def networkDevice_def
      hostDevice_def)

lemma moveDown_last_device:
  "moveDown sampleDevices (Some hostDevice)
     = [Some diskDevice, Some networkDevice, None, Some hostDevice]"
  by (simp add: moveDown_def jsGet_def jsSet_def sampleDevices_def diskDevice_def networkDevice_def
      hostDevice_def)


end
